theory Spec2Isabelle
  imports Main "HOL-Library.FSet" "HOL-Library.List_Lexorder" "HOL-Library.AList"
begin

section \<open>Instagram Follower Analyzer: a shallow embedding of \<open>instagram_analyzer.py\<close>\<close>

subsection \<open>Python strings\<close>

text \<open>
  A Python \<open>str\<close> is a sequence of Unicode code points; a code point is a natural number.
  Comparison of two \<open>str\<close> values is lexicographic on the code points, which is the order
  that \<open>HOL-Library.List_Lexorder\<close> gives to \<open>nat list\<close>.  The ASCII literals of the
  source are written \<open>ascii ''...''\<close>.
\<close>

type_synonym str = "nat list"

definition ascii :: "string \<Rightarrow> str" where
  "ascii s = map of_char s"

text \<open>\<open>str.isspace\<close> on one code point: the whitespace characters of \<open>str.strip()\<close>.\<close>

definition isspace :: "nat \<Rightarrow> bool" where
  "isspace c = ((0x09 \<le> c \<and> c \<le> 0x0D) \<or> (0x1C \<le> c \<and> c \<le> 0x20) \<or> c = 0x85 \<or> c = 0xA0
      \<or> c = 0x1680 \<or> (0x2000 \<le> c \<and> c \<le> 0x200A) \<or> c = 0x2028 \<or> c = 0x2029
      \<or> c = 0x202F \<or> c = 0x205F \<or> c = 0x3000)"

text \<open>\<open>s.lstrip()\<close>, \<open>s.rstrip()\<close>, \<open>s.strip()\<close> with no argument, and \<open>s.lstrip(chars)\<close>.\<close>

definition lstrip :: "str \<Rightarrow> str" where
  "lstrip s = dropWhile isspace s"

definition rstrip :: "str \<Rightarrow> str" where
  "rstrip s = rev (dropWhile isspace (rev s))"

definition strip :: "str \<Rightarrow> str" where
  "strip s = rstrip (lstrip s)"

definition lstrip_chars :: "str \<Rightarrow> str \<Rightarrow> str" where
  "lstrip_chars chars s = dropWhile (\<lambda>c. c \<in> set chars) s"

text \<open>\<open>str(n)\<close> for a non-negative integer \<open>n\<close> (the source formats only \<open>len(...)\<close> and
  the provider's counters).\<close>

function str_nat :: "nat \<Rightarrow> str" where
  "str_nat n = (if n < 10 then [48 + n] else str_nat (n div 10) @ [48 + n mod 10])"
  by pat_completeness auto
termination
  by (relation "measure (\<lambda>n. n)") auto

declare str_nat.simps [simp del]

subsection \<open>\<open>datetime\<close> and \<open>strftime\<close>\<close>

record datetime =
  dt_year :: nat
  dt_month :: nat
  dt_day :: nat
  dt_hour :: nat
  dt_minute :: nat
  dt_second :: nat

definition zfill :: "nat \<Rightarrow> str \<Rightarrow> str" where
  "zfill k s = replicate (k - length s) 48 @ s"

text \<open>The directives the source uses; any other directive is kept as it is written.
  \<open>%Y\<close> is the year in at least four digits: from the year 1000 on, which is all a clock
  gives, these are the digits of the year on every platform.\<close>

definition directive :: "datetime \<Rightarrow> nat \<Rightarrow> str" where
  "directive d c =
    (if [c] = ascii ''Y'' then zfill 4 (str_nat (dt_year d))
     else if [c] = ascii ''m'' then zfill 2 (str_nat (dt_month d))
     else if [c] = ascii ''d'' then zfill 2 (str_nat (dt_day d))
     else if [c] = ascii ''H'' then zfill 2 (str_nat (dt_hour d))
     else if [c] = ascii ''M'' then zfill 2 (str_nat (dt_minute d))
     else if [c] = ascii ''S'' then zfill 2 (str_nat (dt_second d))
     else ascii ''%'' @ [c])"

fun strftime :: "datetime \<Rightarrow> str \<Rightarrow> str" where
  "strftime d (p # c # rest) =
    (if [p] = ascii ''%'' then directive d c @ strftime d rest else p # strftime d (c # rest))"
| "strftime d fmt = fmt"

text \<open>A reading of the wall clock as \<open>datetime.now()\<close> returns it: a four-digit year and
  fields in their calendar ranges.\<close>

definition valid_datetime :: "datetime \<Rightarrow> bool" where
  "valid_datetime d =
    (1000 \<le> dt_year d \<and> dt_year d \<le> 9999 \<and> 1 \<le> dt_month d \<and> dt_month d \<le> 12
     \<and> 1 \<le> dt_day d \<and> dt_day d \<le> 31 \<and> dt_hour d \<le> 23 \<and> dt_minute d \<le> 59
     \<and> dt_second d \<le> 59)"

subsection \<open>Exceptions, the world, and programs\<close>

datatype exn_class =
  BadCredentialsException | TwoFactorAuthRequiredException | ProfileNotExistsException
  | LoginRequiredException | OtherException | EOFError | OSError | TypeError
  | UnicodeEncodeError

text \<open>An exception: its class and its message (\<open>str(e)\<close>).\<close>

datatype exn = Exn exn_class str

fun exn_class_of :: "exn \<Rightarrow> exn_class" where
  "exn_class_of (Exn c m) = c"

fun exn_str :: "exn \<Rightarrow> str" where
  "exn_str (Exn c m) = m"

text \<open>How a computation stops early: \<open>sys.exit(n)\<close>, or an exception that propagates.\<close>

datatype abort = Exit nat | Raise exn

datatype call = Login str str | TwoFactorLogin str | FromUsername str | GetFollowees | GetFollowers

type_synonym ref = nat

text \<open>
  The state a run works on: the lines the user will type, what has been printed, the calls
  made to the provider, the files of the working directory (names with contents), which
  file names can be opened for writing, the store of Python \<open>set\<close> objects (a reference
  is an index into it), and the wall clock (\<open>clock w n\<close> is the \<open>n\<close>-th reading).
\<close>

record world =
  console_in :: "str list"
  console_out :: "str list"
  provider_calls :: "call list"
  files :: "(str \<times> str) list"
  can_create :: "str \<Rightarrow> bool"
  heap :: "str fset list"
  clock :: "nat \<Rightarrow> datetime"
  ticks :: nat

type_synonym 'a prog = "world \<Rightarrow> (abort + 'a) \<times> world"

definition return :: "'a \<Rightarrow> 'a prog" where
  "return x w = (Inr x, w)"

definition py_raise :: "exn \<Rightarrow> 'a prog" where
  "py_raise e w = (Inl (Raise e), w)"

definition sys_exit :: "nat \<Rightarrow> 'a prog" where
  "sys_exit n w = (Inl (Exit n), w)"

text \<open>Sequencing: the second statement runs only if the first one did not stop.\<close>

definition andthen :: "'a prog \<Rightarrow> ('a \<Rightarrow> 'b prog) \<Rightarrow> 'b prog" where
  "andthen m f w = (case m w of (Inl a, w') \<Rightarrow> (Inl a, w') | (Inr x, w') \<Rightarrow> f x w')"

text \<open>\<open>try: m except ...: h\<close>. The handler \<open>h\<close> re-raises what no clause matches; what the
  handler itself raises is not handled again. \<open>sys.exit\<close> passes through.\<close>

definition try_except :: "'a prog \<Rightarrow> (exn \<Rightarrow> 'a prog) \<Rightarrow> 'a prog" where
  "try_except m h w = (case m w of (Inl (Raise e), w') \<Rightarrow> h e w' | r \<Rightarrow> r)"

fun for_each :: "'a list \<Rightarrow> ('a \<Rightarrow> unit prog) \<Rightarrow> unit prog" where
  "for_each [] body = return ()"
| "for_each (x # xs) body = andthen (body x) (\<lambda>_. for_each xs body)"

text \<open>A lazy sequence of the provider: the items it yields, then either its end or an
  exception. The loop body runs for each item before the exception is raised.\<close>

definition for_stream :: "'a list \<times> exn option \<Rightarrow> ('a \<Rightarrow> unit prog) \<Rightarrow> unit prog" where
  "for_stream s body =
    andthen (for_each (fst s) body)
      (\<lambda>_. case snd s of None \<Rightarrow> return () | Some e \<Rightarrow> py_raise e)"

subsection \<open>Console, clock, files\<close>

definition print_end :: "str \<Rightarrow> str \<Rightarrow> unit prog" where
  "print_end s e w = (Inr (), w\<lparr>console_out := console_out w @ [s @ e]\<rparr>)"

definition py_print :: "str \<Rightarrow> unit prog" where
  "py_print s = print_end s (ascii ''\<newline>'')"

text \<open>\<open>input(prompt)\<close> and \<open>getpass.getpass(prompt)\<close>: the prompt is shown, then one line
  is read, without its newline; at the end of the input \<open>EOFError\<close> is raised.\<close>

definition py_input :: "str \<Rightarrow> str prog" where
  "py_input prompt w =
    (let w1 = w\<lparr>console_out := console_out w @ [prompt]\<rparr> in
     case console_in w of
       [] \<Rightarrow> (Inl (Raise (Exn EOFError (ascii ''EOF when reading a line''))), w1)
     | l # ls \<Rightarrow> (Inr l, w1\<lparr>console_in := ls\<rparr>))"

definition getpass :: "str \<Rightarrow> str prog" where
  "getpass prompt = py_input prompt"

definition datetime_now :: "datetime prog" where
  "datetime_now w = (Inr (clock w (ticks w)), w\<lparr>ticks := Suc (ticks w)\<rparr>)"

text \<open>\<open>open(filename, "w", encoding="utf-8")\<close> creates or truncates the file, or raises
  \<open>OSError\<close>; the handle is the file's name.\<close>

definition py_open_w :: "str \<Rightarrow> str prog" where
  "py_open_w filename w =
    (if can_create w filename
     then (Inr filename, w\<lparr>files := AList.update filename [] (files w)\<rparr>)
     else (Inl (Raise (Exn OSError filename)), w))"

definition file_content :: "world \<Rightarrow> str \<Rightarrow> str option" where
  "file_content w name = map_of (files w) name"

text \<open>
  The file is opened with \<open>encoding="utf-8"\<close>. A \<open>str\<close> can hold a lone surrogate (a code
  point from \<open>U+D800\<close> to \<open>U+DFFF\<close>), which UTF-8 cannot encode: \<open>f.write(s)\<close> then raises
  \<open>UnicodeEncodeError\<close> and writes nothing of \<open>s\<close>; what was written before stays in the
  file. Otherwise \<open>f.write(s)\<close> appends \<open>s\<close>; the content of a file is its text.
\<close>

definition utf8_encodable :: "str \<Rightarrow> bool" where
  "utf8_encodable s = list_all (\<lambda>c. c < 0xD800 \<or> 0xDFFF < c) s"

definition encode_error :: exn where
  "encode_error = Exn UnicodeEncodeError (ascii ''surrogates not allowed'')"

definition f_write :: "str \<Rightarrow> str \<Rightarrow> unit prog" where
  "f_write f s w =
    (if utf8_encodable s
     then (Inr (), w\<lparr>files := AList.update f
             ((case file_content w f of None \<Rightarrow> [] | Some c \<Rightarrow> c) @ s) (files w)\<rparr>)
     else (Inl (Raise encode_error), w))"

subsection \<open>Python \<open>set\<close> objects in the store\<close>

definition is_set :: "world \<Rightarrow> ref \<Rightarrow> bool" where
  "is_set w r = (r < length (heap w))"

definition deref :: "world \<Rightarrow> ref \<Rightarrow> str fset option" where
  "deref w r = (if is_set w r then Some (heap w ! r) else None)"

text \<open>An operation on a reference that is not a set object raises \<open>TypeError\<close>.\<close>

definition type_error :: "'a prog" where
  "type_error = py_raise (Exn TypeError (ascii ''not a set''))"

text \<open>\<open>set()\<close>: a fresh, empty set object.\<close>

definition new_set :: "ref prog" where
  "new_set w = (Inr (length (heap w)), w\<lparr>heap := heap w @ [{||}]\<rparr>)"

text \<open>\<open>s.add(x)\<close> changes the object \<open>s\<close> refers to.\<close>

definition set_add :: "ref \<Rightarrow> str \<Rightarrow> unit prog" where
  "set_add r x w =
    (if is_set w r then (Inr (), w\<lparr>heap := (heap w)[r := finsert x (heap w ! r)]\<rparr>)
     else type_error w)"

text \<open>\<open>a & b\<close>: a fresh set object holding the intersection.\<close>

definition set_and :: "ref \<Rightarrow> ref \<Rightarrow> ref prog" where
  "set_and a b w =
    (if is_set w a \<and> is_set w b
     then (Inr (length (heap w)), w\<lparr>heap := heap w @ [heap w ! a |\<inter>| heap w ! b]\<rparr>)
     else type_error w)"

definition py_len :: "ref \<Rightarrow> nat prog" where
  "py_len r w = (if is_set w r then (Inr (fcard (heap w ! r)), w) else type_error w)"

text \<open>\<open>sorted(s)\<close>: a fresh list, the elements of the set in ascending order. The list is
  used by one loop only, so it is a value here.\<close>

definition py_sorted :: "ref \<Rightarrow> str list prog" where
  "py_sorted r w =
    (if is_set w r then (Inr (sorted_list_of_fset (heap w ! r)), w) else type_error w)"

subsection \<open>\<open>write_report\<close> (lines 53-82)\<close>

definition write_report :: "str \<Rightarrow> ref \<Rightarrow> ref \<Rightarrow> (str \<times> nat \<times> nat \<times> nat) prog" where
  "write_report target_username followers following =
    andthen (set_and followers following) (\<lambda>mutual.
    andthen datetime_now (\<lambda>now1.
    let timestamp = strftime now1 (ascii ''%Y%m%d_%H%M%S'');
        filename = target_username @ ascii ''_analysis_'' @ timestamp @ ascii ''.txt'' in
    andthen (py_open_w filename) (\<lambda>f.
    andthen (f_write f (ascii ''Instagram Follower Analysis for @'' @ target_username
               @ ascii ''\<newline>'')) (\<lambda>_.
    andthen datetime_now (\<lambda>now2.
    andthen (f_write f (ascii ''Generated: '' @ strftime now2 (ascii ''%Y-%m-%d %H:%M:%S'')
               @ ascii ''\<newline>'')) (\<lambda>_.
    andthen (f_write f (replicate 60 (of_char CHR ''='') @ ascii ''\<newline>\<newline>'')) (\<lambda>_.
    andthen (py_len following) (\<lambda>n.
    andthen (f_write f (ascii ''ACCOUNTS @'' @ target_username @ ascii '' FOLLOWS (''
               @ str_nat n @ ascii '')\<newline>'')) (\<lambda>_.
    andthen (f_write f (replicate 40 (of_char CHR ''-'') @ ascii ''\<newline>'')) (\<lambda>_.
    andthen (py_sorted following) (\<lambda>xs.
    andthen (for_each xs (\<lambda>username.
               f_write f (ascii ''@'' @ username @ ascii ''\<newline>''))) (\<lambda>_.
    andthen (py_len followers) (\<lambda>n.
    andthen (f_write f (ascii ''\<newline>ACCOUNTS THAT FOLLOW @'' @ target_username @ ascii '' (''
               @ str_nat n @ ascii '')\<newline>'')) (\<lambda>_.
    andthen (f_write f (replicate 40 (of_char CHR ''-'') @ ascii ''\<newline>'')) (\<lambda>_.
    andthen (py_sorted followers) (\<lambda>xs.
    andthen (for_each xs (\<lambda>username.
               f_write f (ascii ''@'' @ username @ ascii ''\<newline>''))) (\<lambda>_.
    andthen (py_len mutual) (\<lambda>n.
    andthen (f_write f (ascii ''\<newline>MUTUAL FOLLOWS - Both follow each other (''
               @ str_nat n @ ascii '')\<newline>'')) (\<lambda>_.
    andthen (f_write f (replicate 40 (of_char CHR ''-'') @ ascii ''\<newline>'')) (\<lambda>_.
    andthen (py_sorted mutual) (\<lambda>xs.
    andthen (for_each xs (\<lambda>username.
               f_write f (ascii ''@'' @ username @ ascii ''\<newline>''))) (\<lambda>_.
    andthen (py_len followers) (\<lambda>n_followers.
    andthen (py_len following) (\<lambda>n_following.
    andthen (py_len mutual) (\<lambda>n_mutual.
    return (filename, n_followers, n_following, n_mutual))))))))))))))))))))))))))"

subsection \<open>The provider (the \<open>instaloader\<close> library)\<close>

text \<open>
  The library is outside the program; a run is given its answers. A profile carries the
  two lazy sequences that \<open>get_followees()\<close> and \<open>get_followers()\<close> return.
\<close>

record profile =
  p_full_name :: str
  p_followers :: nat
  p_followees :: nat
  p_get_followees :: "str list \<times> exn option"
  p_get_followers :: "str list \<times> exn option"

record provider =
  pv_login :: "str \<Rightarrow> str \<Rightarrow> exn option"
  pv_two_factor_login :: "str \<Rightarrow> exn option"
  pv_from_username :: "str \<Rightarrow> exn + profile"

definition called :: "call \<Rightarrow> world \<Rightarrow> world" where
  "called c w = w\<lparr>provider_calls := provider_calls w @ [c]\<rparr>"

definition loader_login :: "provider \<Rightarrow> str \<Rightarrow> str \<Rightarrow> unit prog" where
  "loader_login pv u p w =
    (case pv_login pv u p of
       None \<Rightarrow> (Inr (), called (Login u p) w)
     | Some e \<Rightarrow> (Inl (Raise e), called (Login u p) w))"

definition loader_two_factor_login :: "provider \<Rightarrow> str \<Rightarrow> unit prog" where
  "loader_two_factor_login pv code w =
    (case pv_two_factor_login pv code of
       None \<Rightarrow> (Inr (), called (TwoFactorLogin code) w)
     | Some e \<Rightarrow> (Inl (Raise e), called (TwoFactorLogin code) w))"

definition profile_from_username :: "provider \<Rightarrow> str \<Rightarrow> profile prog" where
  "profile_from_username pv name w =
    (case pv_from_username pv name of
       Inr p \<Rightarrow> (Inr p, called (FromUsername name) w)
     | Inl e \<Rightarrow> (Inl (Raise e), called (FromUsername name) w))"

definition get_followees :: "profile \<Rightarrow> (str list \<times> exn option) prog" where
  "get_followees p w = (Inr (p_get_followees p), called GetFollowees w)"

definition get_followers :: "profile \<Rightarrow> (str list \<times> exn option) prog" where
  "get_followers p w = (Inr (p_get_followers p), called GetFollowers w)"

subsection \<open>\<open>get_profile_data\<close> (lines 13-50)\<close>

definition get_profile_data :: "provider \<Rightarrow> str \<Rightarrow> (ref \<times> ref) prog" where
  "get_profile_data pv target_username =
    andthen (py_print (ascii ''\<newline>Fetching profile: @'' @ target_username)) (\<lambda>_.
    andthen (try_except (profile_from_username pv target_username) (\<lambda>e.
        if exn_class_of e = ProfileNotExistsException then
          andthen (py_print (ascii ''Error: Profile @'' @ target_username
                     @ ascii '' does not exist.'')) (\<lambda>_. sys_exit 1)
        else if exn_class_of e = LoginRequiredException then
          andthen (py_print (ascii
            ''Error: This profile is private. Login is required and you must follow this account.''))
            (\<lambda>_. sys_exit 1)
        else py_raise e)) (\<lambda>profile.
    andthen (py_print (ascii ''Profile found: '' @ p_full_name profile
               @ ascii '' | Followers: '' @ str_nat (p_followers profile)
               @ ascii '' | Following: '' @ str_nat (p_followees profile))) (\<lambda>_.
    andthen (py_print (ascii
      ''\<newline>Note: Fetching large follower/following lists may take a while due to Instagram rate limits.''))
      (\<lambda>_.
    andthen (py_print (ascii ''\<newline>Fetching following list...'')) (\<lambda>_.
    andthen new_set (\<lambda>following.
    andthen (try_except
        (andthen (get_followees profile) (\<lambda>s.
           for_stream s (\<lambda>followee.
             andthen (set_add following followee) (\<lambda>_.
             andthen (py_len following) (\<lambda>n.
             print_end (ascii ''  Following: '' @ str_nat n) [0x0D])))))
        (\<lambda>e.
          if exn_class_of e = LoginRequiredException then
            andthen (py_print (ascii ''\<newline>Error: Login required to fetch following list.''))
              (\<lambda>_. sys_exit 1)
          else py_raise e)) (\<lambda>_.
    andthen (py_len following) (\<lambda>n.
    andthen (py_print (ascii ''  Following fetched: '' @ str_nat n)) (\<lambda>_.
    andthen (py_print (ascii ''\<newline>Fetching followers list...'')) (\<lambda>_.
    andthen new_set (\<lambda>followers.
    andthen (try_except
        (andthen (get_followers profile) (\<lambda>s.
           for_stream s (\<lambda>follower.
             andthen (set_add followers follower) (\<lambda>_.
             andthen (py_len followers) (\<lambda>n.
             print_end (ascii ''  Followers: '' @ str_nat n) [0x0D])))))
        (\<lambda>e.
          if exn_class_of e = LoginRequiredException then
            andthen (py_print (ascii ''\<newline>Error: Login required to fetch followers list.''))
              (\<lambda>_. sys_exit 1)
          else py_raise e)) (\<lambda>_.
    andthen (py_len followers) (\<lambda>n.
    andthen (py_print (ascii ''  Followers fetched: '' @ str_nat n)) (\<lambda>_.
    return (followers, following)))))))))))))))"

subsection \<open>\<open>main\<close> (lines 85-134)\<close>

text \<open>Line 90: the target username as the pipeline uses it.\<close>

definition normalize_username :: "str \<Rightarrow> str" where
  "normalize_username line = lstrip_chars (ascii ''@'') (strip line)"

text \<open>Lines 86-93: the banner, the prompt for the target, the check that it is not empty.\<close>

definition main_target :: "str prog" where
  "main_target =
    andthen (py_print (replicate 60 (of_char CHR ''=''))) (\<lambda>_.
    andthen (py_print (ascii ''       Instagram Follower Analyzer'')) (\<lambda>_.
    andthen (py_print (replicate 60 (of_char CHR ''=''))) (\<lambda>_.
    andthen (py_input (ascii ''\<newline>Enter the Instagram username to analyze: '')) (\<lambda>line.
    let target_username = normalize_username line in
    if target_username = [] then
      andthen (py_print (ascii ''Error: Username cannot be empty.'')) (\<lambda>_. sys_exit 1)
    else return target_username))))"

text \<open>Lines 95-123: the credentials and the login, with its three handlers.\<close>

definition main_login :: "provider \<Rightarrow> unit prog" where
  "main_login pv =
    andthen (py_print (ascii ''\<newline>Login is required to access follower/following data.'')) (\<lambda>_.
    andthen (py_print (ascii ''Your credentials are used only to authenticate with Instagram.''))
      (\<lambda>_.
    andthen (py_input (ascii ''Your Instagram username (for login): '')) (\<lambda>line.
    let session_username = strip line in
    andthen (getpass (ascii ''Your Instagram password: '')) (\<lambda>session_password.
    andthen (py_print (ascii ''\<newline>Logging in...'')) (\<lambda>_.
    try_except
      (andthen (loader_login pv session_username session_password) (\<lambda>_.
       py_print (ascii ''Login successful.'')))
      (\<lambda>e.
        if exn_class_of e = BadCredentialsException then
          andthen (py_print (ascii ''Error: Invalid username or password.'')) (\<lambda>_. sys_exit 1)
        else if exn_class_of e = TwoFactorAuthRequiredException then
          andthen (py_input (ascii ''Two-factor authentication required. Enter the code: ''))
            (\<lambda>line.
          let code = strip line in
          andthen (loader_two_factor_login pv code) (\<lambda>_.
          py_print (ascii ''Login successful.'')))
        else
          andthen (py_print (ascii ''Login error: '' @ exn_str e)) (\<lambda>_. sys_exit 1)))))))"

text \<open>Lines 127-134: the report is written and the summary printed.\<close>

definition main_report :: "str \<Rightarrow> ref \<Rightarrow> ref \<Rightarrow> unit prog" where
  "main_report target_username followers following =
    andthen (py_print (ascii ''\<newline>Writing report...'')) (\<lambda>_.
    andthen (write_report target_username followers following)
      (\<lambda>(filename, n_followers, n_following, n_mutual).
    andthen (py_print (ascii ''\<newline>Analysis complete!'')) (\<lambda>_.
    andthen (py_print (ascii ''  Following:      '' @ str_nat n_following)) (\<lambda>_.
    andthen (py_print (ascii ''  Followers:      '' @ str_nat n_followers)) (\<lambda>_.
    andthen (py_print (ascii ''  Mutual follows: '' @ str_nat n_mutual)) (\<lambda>_.
    py_print (ascii ''\<newline>Report saved to: '' @ filename)))))))"

definition main :: "provider \<Rightarrow> unit prog" where
  "main pv =
    andthen main_target (\<lambda>target_username.
    andthen (main_login pv) (\<lambda>_.
    andthen (get_profile_data pv target_username) (\<lambda>(followers, following).
    main_report target_username followers following)))"

text \<open>The exit status of the process: 0 when \<open>main\<close> returns, the argument of \<open>sys.exit\<close>,
  and 1 when an exception reaches the top (the interpreter prints a traceback).\<close>

fun exit_status :: "abort + unit \<Rightarrow> nat" where
  "exit_status (Inr u) = 0"
| "exit_status (Inl (Exit n)) = n"
| "exit_status (Inl (Raise e)) = 1"

subsection \<open>The layout of the report, as the specification describes it\<close>

text \<open>
  One section: a header line with the section's label and a count, a rule of 40 dashes,
  then one line per entry, the entry prefixed with \<open>@\<close>. The count and the entries are
  separate arguments: that they agree is a property of \<open>write_report\<close>, not of the layout.
\<close>

definition report_section :: "str \<Rightarrow> nat \<Rightarrow> str list \<Rightarrow> str" where
  "report_section label n entries =
    label @ ascii '' ('' @ str_nat n @ ascii '')\<newline>''
    @ replicate 40 (of_char CHR ''-'') @ ascii ''\<newline>''
    @ concat (map (\<lambda>username. ascii ''@'' @ username @ ascii ''\<newline>'') entries)"

text \<open>The title, the line with the time of generation, a rule of 60 \<open>=\<close> and an empty line.\<close>

definition report_preamble :: "str \<Rightarrow> str \<Rightarrow> str" where
  "report_preamble target generated =
    ascii ''Instagram Follower Analysis for @'' @ target @ ascii ''\<newline>''
    @ ascii ''Generated: '' @ generated @ ascii ''\<newline>''
    @ replicate 60 (of_char CHR ''='') @ ascii ''\<newline>\<newline>''"

text \<open>The three sections in their order: following, followers, mutual.\<close>

definition report_sections ::
  "str \<Rightarrow> nat \<times> str list \<Rightarrow> nat \<times> str list \<Rightarrow> nat \<times> str list \<Rightarrow> str" where
  "report_sections target following followers mutual =
    report_section (ascii ''ACCOUNTS @'' @ target @ ascii '' FOLLOWS'')
      (fst following) (snd following)
    @ report_section (ascii ''\<newline>ACCOUNTS THAT FOLLOW @'' @ target)
      (fst followers) (snd followers)
    @ report_section (ascii ''\<newline>MUTUAL FOLLOWS - Both follow each other'')
      (fst mutual) (snd mutual)"

text \<open>The name of the report file for a target and a reading of the clock.\<close>

definition report_filename :: "str \<Rightarrow> datetime \<Rightarrow> str" where
  "report_filename target now =
    target @ ascii ''_analysis_''
    @ zfill 4 (str_nat (dt_year now)) @ zfill 2 (str_nat (dt_month now))
    @ zfill 2 (str_nat (dt_day now)) @ ascii ''_''
    @ zfill 2 (str_nat (dt_hour now)) @ zfill 2 (str_nat (dt_minute now))
    @ zfill 2 (str_nat (dt_second now)) @ ascii ''.txt''"

definition isdigit :: "nat \<Rightarrow> bool" where
  "isdigit c = (48 \<le> c \<and> c \<le> 57)"

text \<open>The texts that go into the report can all be written: the target username and every
  username of the two sets.\<close>

definition report_encodable :: "str \<Rightarrow> str fset \<Rightarrow> str fset \<Rightarrow> bool" where
  "report_encodable target A B =
    (utf8_encodable target \<and> list_all utf8_encodable (sorted_list_of_fset (A |\<union>| B)))"

subsection \<open>The normalisation of the target, as the specification words it\<close>

text \<open>The normalisation as the specification words it: surrounding whitespace removed, then
  the leading \<open>@\<close>, one character, removed.\<close>

definition spec_normalize :: "str \<Rightarrow> str" where
  "spec_normalize line =
    (case strip line of
       [] \<Rightarrow> []
     | c # rest \<Rightarrow> if [c] = ascii ''@'' then rest else c # rest)"

subsection \<open>Vocabulary for the runs of \<open>get_profile_data\<close> and \<open>main\<close>\<close>

text \<open>The world after the loop of lines 31-33 (or 42-44) has run over the items \<open>xs\<close>:
  each item is added to the set object \<open>r\<close> and the size so far is printed.\<close>

fun fetched :: "ref \<Rightarrow> str \<Rightarrow> str list \<Rightarrow> world \<Rightarrow> world" where
  "fetched r label [] w = w"
| "fetched r label (x # xs) w =
    fetched r label xs
      (w\<lparr>heap := (heap w)[r := finsert x (heap w ! r)],
         console_out := console_out w
           @ [(label @ str_nat (fcard (finsert x (heap w ! r)))) @ [0x0D]]\<rparr>)"

text \<open>
  What the provider answers for a target. \<open>fetch_denied\<close>: the profile does not exist or
  is private at resolution, or login is required while the following list is enumerated,
  or, the following list being complete, while the followers list is.
  \<open>fetch_complete\<close>: the profile is resolved and both sequences reach their end.
\<close>

definition fetch_denied :: "provider \<Rightarrow> str \<Rightarrow> bool" where
  "fetch_denied pv target =
    (case pv_from_username pv target of
       Inl e \<Rightarrow> exn_class_of e = ProfileNotExistsException
                \<or> exn_class_of e = LoginRequiredException
     | Inr p \<Rightarrow>
        (case snd (p_get_followees p) of
           Some e \<Rightarrow> exn_class_of e = LoginRequiredException
         | None \<Rightarrow>
            (case snd (p_get_followers p) of
               Some e \<Rightarrow> exn_class_of e = LoginRequiredException
             | None \<Rightarrow> False)))"

definition fetch_complete :: "provider \<Rightarrow> str \<Rightarrow> bool" where
  "fetch_complete pv target =
    (case pv_from_username pv target of
       Inl e \<Rightarrow> False
     | Inr p \<Rightarrow> snd (p_get_followees p) = None \<and> snd (p_get_followers p) = None)"

subsection \<open>Scenarios\<close>

text \<open>Scenario 1 of the specification after the fetch: the target follows \<open>alice\<close> and
  \<open>bob\<close> (set object 0) and is followed by \<open>bob\<close> and \<open>carol\<close> (set object 1).\<close>

definition scenario_clock :: "nat \<Rightarrow> datetime" where
  "scenario_clock n =
    \<lparr>dt_year = 2024, dt_month = 3, dt_day = 9, dt_hour = 7, dt_minute = 5, dt_second = n\<rparr>"

definition scenario1 :: world where
  "scenario1 =
    \<lparr>console_in = [], console_out = [], provider_calls = [], files = [],
     can_create = (\<lambda>name. True),
     heap = [{|ascii ''alice'', ascii ''bob''|}, {|ascii ''bob'', ascii ''carol''|}],
     clock = scenario_clock, ticks = 0\<rparr>"

definition scenario1_again :: world where
  "scenario1_again =
    \<lparr>console_in = [], console_out = [], provider_calls = [],
     files = [(ascii ''notes.txt'', ascii ''x'')],
     can_create = (\<lambda>name. True),
     heap = [{||}, {|ascii ''carol'', ascii ''bob''|}, {|ascii ''bob'', ascii ''alice''|}],
     clock = (\<lambda>n. \<lparr>dt_year = 2025, dt_month = 12, dt_day = 31, dt_hour = 23, dt_minute = 59,
                     dt_second = 10 + n\<rparr>),
     ticks = 4\<rparr>"

text \<open>A world in which the one account that the target follows, and that follows it, has
  the lone surrogate \<open>U+D800\<close> as its username.\<close>

definition surrogate_world :: world where
  "surrogate_world =
    \<lparr>console_in = [], console_out = [], provider_calls = [], files = [],
     can_create = (\<lambda>name. True), heap = [{|[0xD800]|}, {|[0xD800]|}],
     clock = scenario_clock, ticks = 0\<rparr>"

text \<open>The world when the program starts, with the lines the user will type.\<close>

definition start_world :: "str list \<Rightarrow> world" where
  "start_world lines =
    \<lparr>console_in = lines, console_out = [], provider_calls = [], files = [],
     can_create = (\<lambda>name. True), heap = [], clock = scenario_clock, ticks = 0\<rparr>"

text \<open>The providers of the scenarios. The profile of \<open>bob\<close> has the two lists of
  scenario 1; the argument says how the enumeration of the followers ends.\<close>

definition bob_profile :: "exn option \<Rightarrow> profile" where
  "bob_profile followers_end =
    \<lparr>p_full_name = ascii ''Bob'', p_followers = 2, p_followees = 2,
     p_get_followees = ([ascii ''alice'', ascii ''bob''], None),
     p_get_followers = ([ascii ''bob'', ascii ''carol''], followers_end)\<rparr>"

definition scenario1_provider :: provider where
  "scenario1_provider =
    \<lparr>pv_login = (\<lambda>u p. None), pv_two_factor_login = (\<lambda>c. None),
     pv_from_username = (\<lambda>name. Inr (bob_profile None))\<rparr>"

definition scenario5_provider :: provider where
  "scenario5_provider =
    \<lparr>pv_login = (\<lambda>u p. None), pv_two_factor_login = (\<lambda>c. None),
     pv_from_username = (\<lambda>name. Inr (bob_profile
        (Some (Exn LoginRequiredException (ascii ''Login required'')))))\<rparr>"

definition two_factor_provider :: provider where
  "two_factor_provider =
    \<lparr>pv_login = (\<lambda>u p. Some (Exn TwoFactorAuthRequiredException (ascii ''2FA required''))),
     pv_two_factor_login = (\<lambda>c. Some (Exn BadCredentialsException (ascii ''2FA error''))),
     pv_from_username = (\<lambda>name. Inr (bob_profile None))\<rparr>"

section \<open>Properties\<close>

subsection \<open>Numbers and dates as text\<close>

lemma str_nat_nonempty: "str_nat n \<noteq> []"
  by (subst str_nat.simps) simp

lemma str_nat_digits: "c \<in> set (str_nat n) \<Longrightarrow> isdigit c"
proof (induction n rule: str_nat.induct)
  case (1 n)
  show ?case
  proof (cases "n < 10")
    case True
    with "1.prems" show ?thesis by (subst (asm) str_nat.simps) (simp add: isdigit_def)
  next
    case False
    with "1.prems" have "c \<in> set (str_nat (n div 10)) \<or> c = 48 + n mod 10"
      by (subst (asm) str_nat.simps) auto
    then show ?thesis
    proof
      assume "c \<in> set (str_nat (n div 10))"
      with "1.IH" False show ?thesis by simp
    next
      assume "c = 48 + n mod 10"
      moreover have "n mod 10 < 10" by simp
      ultimately show ?thesis unfolding isdigit_def by linarith
    qed
  qed
qed

lemma str_nat_length: "0 < k \<Longrightarrow> n < 10 ^ k \<Longrightarrow> length (str_nat n) \<le> k"
proof (induction n arbitrary: k rule: str_nat.induct)
  case (1 n)
  show ?case
  proof (cases "n < 10")
    case True
    with "1.prems" show ?thesis by (subst str_nat.simps) simp
  next
    case False
    obtain j where k: "k = Suc j" using "1.prems"(1) by (cases k) auto
    have "j \<noteq> 0" using False "1.prems"(2) k by (cases j) auto
    moreover have "n div 10 < 10 ^ j" using "1.prems"(2) k
      by (simp add: less_mult_imp_div_less mult.commute)
    ultimately have "length (str_nat (n div 10)) \<le> j" using "1.IH"[OF False, of j] by simp
    with False k show ?thesis by (subst str_nat.simps) simp
  qed
qed

lemma zfill_length: "0 < k \<Longrightarrow> n < 10 ^ k \<Longrightarrow> length (zfill k (str_nat n)) = k"
  using str_nat_length[of k n] by (simp add: zfill_def)

lemma zfill_digits: "c \<in> set (zfill k (str_nat n)) \<Longrightarrow> isdigit c"
  using str_nat_digits by (auto simp: zfill_def isdigit_def)

lemma str_nat_inj: "str_nat n = str_nat m \<Longrightarrow> n = m"
proof (induction n arbitrary: m rule: str_nat.induct)
  case (1 n)
  show ?case
  proof (cases "n < 10")
    case True
    show ?thesis
    proof (cases "m < 10")
      case True
      with \<open>n < 10\<close> "1.prems" show ?thesis
        by (subst (asm) str_nat.simps, subst (asm) (2) str_nat.simps) simp
    next
      case False
      with \<open>n < 10\<close> "1.prems" have "[48 + n] = str_nat (m div 10) @ [48 + m mod 10]"
        by (subst (asm) str_nat.simps, subst (asm) (2) str_nat.simps) simp
      then show ?thesis using str_nat_nonempty[of "m div 10"] by (simp add: Cons_eq_append_conv)
    qed
  next
    case False
    show ?thesis
    proof (cases "m < 10")
      case True
      with False "1.prems" have "str_nat (n div 10) @ [48 + n mod 10] = [48 + m]"
        by (subst (asm) str_nat.simps, subst (asm) (2) str_nat.simps) simp
      then show ?thesis using str_nat_nonempty[of "n div 10"] by (simp add: append_eq_Cons_conv)
    next
      case m: False
      with False "1.prems"
      have "str_nat (n div 10) @ [48 + n mod 10] = str_nat (m div 10) @ [48 + m mod 10]"
        by (subst (asm) str_nat.simps, subst (asm) (2) str_nat.simps) simp
      then have "str_nat (n div 10) = str_nat (m div 10)" and "n mod 10 = m mod 10" by simp_all
      with "1.IH"[OF False] have "n div 10 = m div 10" by simp
      with \<open>n mod 10 = m mod 10\<close> show ?thesis by (metis div_mult_mod_eq)
    qed
  qed
qed

lemma length_sorted_list_of_fset: "length (sorted_list_of_fset S) = fcard S"
  by (simp add: sorted_list_of_fset.rep_eq fcard.rep_eq)

lemma sorted_sorted_list_of_fset: "sorted (sorted_list_of_fset S)"
  by (simp add: sorted_list_of_fset.rep_eq)

lemma distinct_sorted_list_of_fset: "distinct (sorted_list_of_fset S)"
  by (simp add: sorted_list_of_fset.rep_eq)

lemma strftime_filename:
  "strftime d (ascii ''%Y%m%d_%H%M%S'') =
     zfill 4 (str_nat (dt_year d)) @ zfill 2 (str_nat (dt_month d))
     @ zfill 2 (str_nat (dt_day d)) @ ascii ''_''
     @ zfill 2 (str_nat (dt_hour d)) @ zfill 2 (str_nat (dt_minute d))
     @ zfill 2 (str_nat (dt_second d))"
  by (simp add: ascii_def directive_def)


subsection \<open>What \<open>write_report\<close> does on each path\<close>

lemma utf8_encodable_simps [simp]:
  "utf8_encodable []"
  "utf8_encodable (a @ b) = (utf8_encodable a \<and> utf8_encodable b)"
  "utf8_encodable (ascii s)"
  "c < 0xD800 \<Longrightarrow> utf8_encodable (replicate n c)"
  by (auto simp: utf8_encodable_def ascii_def list_all_iff intro: less_trans[OF nat_of_char_less_256])

lemma utf8_encodable_equals [simp]: "utf8_encodable (replicate n (of_char c))"
  by (auto simp: utf8_encodable_def list_all_iff intro: less_trans[OF nat_of_char_less_256])

lemma utf8_encodable_str_nat [simp]: "utf8_encodable (str_nat n)"
  using str_nat_digits by (fastforce simp: utf8_encodable_def list_all_iff isdigit_def)

lemma utf8_encodable_zfill [simp]: "utf8_encodable (zfill k (str_nat n))"
  by (simp add: zfill_def)

lemma strftime_generated:
  "strftime d (ascii ''%Y-%m-%d %H:%M:%S'') =
     zfill 4 (str_nat (dt_year d)) @ ascii ''-'' @ zfill 2 (str_nat (dt_month d)) @ ascii ''-''
     @ zfill 2 (str_nat (dt_day d)) @ ascii '' ''
     @ zfill 2 (str_nat (dt_hour d)) @ ascii '':'' @ zfill 2 (str_nat (dt_minute d)) @ ascii '':''
     @ zfill 2 (str_nat (dt_second d))"
  by (simp add: ascii_def directive_def)

lemma utf8_encodable_generated [simp]:
  "utf8_encodable (strftime d (ascii ''%Y-%m-%d %H:%M:%S''))"
  by (simp add: strftime_generated)

lemma for_each_write:
  "file_content w f = Some c \<Longrightarrow>
   for_each xs (\<lambda>u. f_write f (g u)) w =
     (if list_all (\<lambda>u. utf8_encodable (g u)) xs then Inr () else Inl (Raise encode_error),
      w\<lparr>files := AList.update f
          (c @ concat (map g (takeWhile (\<lambda>u. utf8_encodable (g u)) xs))) (files w)\<rparr>)"
proof (induction xs arbitrary: w c)
  case Nil
  then show ?case by (simp add: return_def file_content_def update_triv)
next
  case (Cons x xs)
  show ?case
  proof (cases "utf8_encodable (g x)")
    case False
    then have "f_write f (g x) w = (Inl (Raise encode_error), w)" by (simp add: f_write_def)
    with False Cons.prems show ?thesis
      by (simp add: andthen_def file_content_def update_triv)
  next
    case True
    let ?w1 = "w\<lparr>files := AList.update f (c @ g x) (files w)\<rparr>"
    have step: "f_write f (g x) w = (Inr (), ?w1)"
      using Cons.prems True by (simp add: f_write_def)
    have "file_content ?w1 f = Some (c @ g x)" by (simp add: file_content_def update_conv')
    from Cons.IH[OF this]
    have "for_each xs (\<lambda>u. f_write f (g u)) ?w1 =
        (if list_all (\<lambda>u. utf8_encodable (g u)) xs then Inr () else Inl (Raise encode_error),
         w\<lparr>files := AList.update f
             (c @ g x @ concat (map g (takeWhile (\<lambda>u. utf8_encodable (g u)) xs))) (files w)\<rparr>)"
      by simp
    with True show ?thesis by (simp add: andthen_def step)
  qed
qed

lemma header_literals:
  "ascii '' FOLLOWS ('' = ascii '' FOLLOWS'' @ ascii '' (''"
  "ascii ''\<newline>MUTUAL FOLLOWS - Both follow each other ('' =
     ascii ''\<newline>MUTUAL FOLLOWS - Both follow each other'' @ ascii '' (''"
  by (simp_all add: ascii_def)

lemma list_all_sorted_list_of_fset:
  "list_all P (sorted_list_of_fset S) = (\<forall>x. x |\<in>| S \<longrightarrow> P x)"
  by (auto simp: list_all_iff)

lemma report_encodable_iff:
  "report_encodable target A B =
    (utf8_encodable target \<and> list_all utf8_encodable (sorted_list_of_fset A)
     \<and> list_all utf8_encodable (sorted_list_of_fset B))"
  by (auto simp: report_encodable_def list_all_sorted_list_of_fset)

lemma encodable_inter:
  "list_all utf8_encodable (sorted_list_of_fset A) \<Longrightarrow>
   list_all utf8_encodable (sorted_list_of_fset (B |\<inter>| A))"
  by (auto simp: list_all_sorted_list_of_fset)

lemma takeWhile_all_id: "list_all P xs \<Longrightarrow> takeWhile P xs = xs"
  by (simp add: list_all_iff)

lemmas exec_write_report =
  andthen_def set_and_def datetime_now_def py_open_w_def f_write_def py_len_def py_sorted_def
  is_set_def Let_def return_def for_each_write nth_append file_content_def update_conv'
  strftime_filename header_literals

lemma write_report_run:
  assumes "is_set w followers" and "is_set w following"
    and "can_create w (report_filename target (clock w (ticks w)))"
    and "report_encodable target (heap w ! following) (heap w ! followers)"
  shows "write_report target followers following w =
    (Inr (report_filename target (clock w (ticks w)),
          fcard (heap w ! followers), fcard (heap w ! following),
          fcard (heap w ! followers |\<inter>| heap w ! following)),
     w\<lparr>heap := heap w @ [heap w ! followers |\<inter>| heap w ! following],
       ticks := Suc (Suc (ticks w)),
       files := AList.update (report_filename target (clock w (ticks w)))
         (report_preamble target (strftime (clock w (Suc (ticks w))) (ascii ''%Y-%m-%d %H:%M:%S''))
          @ report_sections target
             (fcard (heap w ! following), sorted_list_of_fset (heap w ! following))
             (fcard (heap w ! followers), sorted_list_of_fset (heap w ! followers))
             (fcard (heap w ! followers |\<inter>| heap w ! following),
              sorted_list_of_fset (heap w ! followers |\<inter>| heap w ! following)))
         (files w)\<rparr>)"
proof -
  from assms(4) have e: "utf8_encodable target"
    "list_all utf8_encodable (sorted_list_of_fset (heap w ! following))"
    "list_all utf8_encodable (sorted_list_of_fset (heap w ! followers))"
    by (simp_all add: report_encodable_iff)
  note e3 = encodable_inter[OF e(2), of "heap w ! followers"]
  show ?thesis
    using assms(1,2,3) e e3 unfolding write_report_def report_filename_def
    by (simp add: exec_write_report takeWhile_all_id
        report_preamble_def report_sections_def report_section_def)
qed

lemma write_report_encode_error:
  assumes "is_set w followers" and "is_set w following"
    and "can_create w (report_filename target (clock w (ticks w)))"
    and "\<not> report_encodable target (heap w ! following) (heap w ! followers)"
  shows "fst (write_report target followers following w) = Inl (Raise encode_error)"
    and "heap (snd (write_report target followers following w))
           = heap w @ [heap w ! followers |\<inter>| heap w ! following]"
    and "file_content (snd (write_report target followers following w))
           (report_filename target (clock w (ticks w))) \<noteq> None"
    and "name \<noteq> report_filename target (clock w (ticks w)) \<Longrightarrow>
         file_content (snd (write_report target followers following w)) name
           = file_content w name"
proof -
  consider (target) "\<not> utf8_encodable target"
    | (following) "utf8_encodable target"
        "\<not> list_all utf8_encodable (sorted_list_of_fset (heap w ! following))"
    | (followers) "utf8_encodable target"
        "list_all utf8_encodable (sorted_list_of_fset (heap w ! following))"
        "\<not> list_all utf8_encodable (sorted_list_of_fset (heap w ! followers))"
    using assms(4) by (auto simp: report_encodable_iff)
  then have "fst (write_report target followers following w) = Inl (Raise encode_error)
    \<and> heap (snd (write_report target followers following w))
           = heap w @ [heap w ! followers |\<inter>| heap w ! following]
    \<and> file_content (snd (write_report target followers following w))
           (report_filename target (clock w (ticks w))) \<noteq> None
    \<and> (name \<noteq> report_filename target (clock w (ticks w)) \<longrightarrow>
         file_content (snd (write_report target followers following w)) name
           = file_content w name)"
  proof cases
    case target
    then show ?thesis
      using assms(1,2,3) unfolding write_report_def report_filename_def
      by (simp add: exec_write_report)
  next
    case following
    then show ?thesis
      using assms(1,2,3) unfolding write_report_def report_filename_def
      by (simp add: exec_write_report)
  next
    case followers
    then show ?thesis
      using assms(1,2,3) unfolding write_report_def report_filename_def
      by (simp add: exec_write_report takeWhile_all_id)
  qed
  then show "fst (write_report target followers following w) = Inl (Raise encode_error)"
    and "heap (snd (write_report target followers following w))
           = heap w @ [heap w ! followers |\<inter>| heap w ! following]"
    and "file_content (snd (write_report target followers following w))
           (report_filename target (clock w (ticks w))) \<noteq> None"
    and "name \<noteq> report_filename target (clock w (ticks w)) \<Longrightarrow>
         file_content (snd (write_report target followers following w)) name
           = file_content w name"
    by simp_all
qed

lemma write_report_type_error:
  assumes "\<not> (is_set w followers \<and> is_set w following)"
  shows "write_report target followers following w =
    (Inl (Raise (Exn TypeError (ascii ''not a set''))), w)"
proof -
  have "set_and followers following w = (Inl (Raise (Exn TypeError (ascii ''not a set''))), w)"
    using assms by (auto simp: set_and_def type_error_def py_raise_def)
  then show ?thesis
    unfolding write_report_def by (simp add: andthen_def)
qed

lemma write_report_os_error:
  assumes "is_set w followers" and "is_set w following"
    and "\<not> can_create w (report_filename target (clock w (ticks w)))"
  shows "write_report target followers following w =
    (Inl (Raise (Exn OSError (report_filename target (clock w (ticks w))))),
     w\<lparr>heap := heap w @ [heap w ! followers |\<inter>| heap w ! following],
       ticks := Suc (ticks w)\<rparr>)"
  using assms unfolding write_report_def report_filename_def
  by (simp add: andthen_def set_and_def datetime_now_def py_open_w_def Let_def strftime_filename)

lemma write_report_heap_valid:
  assumes "is_set w followers" and "is_set w following"
  shows "heap (snd (write_report target followers following w))
           = heap w @ [heap w ! followers |\<inter>| heap w ! following]"
proof (cases "can_create w (report_filename target (clock w (ticks w)))")
  case False
  with assms show ?thesis by (simp add: write_report_os_error)
next
  case True
  with assms show ?thesis
    by (cases "report_encodable target (heap w ! following) (heap w ! followers)")
       (simp_all add: write_report_run write_report_encode_error)
qed

lemma write_report_heap:
  "\<exists>new. heap (snd (write_report target followers following w)) = heap w @ new"
proof (cases "is_set w followers \<and> is_set w following")
  case False
  then show ?thesis by (simp add: write_report_type_error)
next
  case True
  then show ?thesis by (simp add: write_report_heap_valid)
qed

text \<open>\<open>write_report\<close> returns only on its last path: the arguments are sets, the file can be
  created and every text can be written.\<close>

lemma write_report_returns:
  assumes "fst (write_report target followers following w) = Inr r"
  shows "is_set w followers \<and> is_set w following"
    and "can_create w (report_filename target (clock w (ticks w)))"
    and "report_encodable target (heap w ! following) (heap w ! followers)"
proof -
  show v: "is_set w followers \<and> is_set w following"
    using assms write_report_type_error[of w followers following target]
    by (cases "is_set w followers \<and> is_set w following") simp_all
  show c: "can_create w (report_filename target (clock w (ticks w)))"
    using assms v write_report_os_error[of w followers following target]
    by (cases "can_create w (report_filename target (clock w (ticks w)))") simp_all
  show "report_encodable target (heap w ! following) (heap w ! followers)"
    using assms v c write_report_encode_error(1)[of w followers following target]
    by (cases "report_encodable target (heap w ! following) (heap w ! followers)") simp_all
qed

lemma deref_Some: "deref w r = Some S \<longleftrightarrow> is_set w r \<and> heap w ! r = S"
  by (auto simp: deref_def)


subsection \<open>The mutual set\<close>


text \<open>
  C1. For the sets \<open>A\<close> (following) and \<open>B\<close> (followers) that the two arguments refer
  to, the \<open>followers & following\<close> of line 55 returns a fresh set object holding
  \<open>A \<inter> B\<close>, never an error, and that object is what \<open>write_report\<close> leaves at this
  reference; so the mutual set is included in both sets, it has at most
  \<open>min |A| |B|\<close> elements, and it is empty when both sets are.
\<close>

theorem mutual_is_intersection:
  assumes "deref w following = Some A" and "deref w followers = Some B"
  shows "set_and followers following w =
           (Inr (length (heap w)), w\<lparr>heap := heap w @ [A |\<inter>| B]\<rparr>)
       \<and> deref (snd (set_and followers following w)) (length (heap w)) = Some (A |\<inter>| B)
       \<and> deref (snd (write_report target followers following w)) (length (heap w))
           = Some (A |\<inter>| B)
       \<and> A |\<inter>| B |\<subseteq>| A \<and> A |\<inter>| B |\<subseteq>| B
       \<and> fcard (A |\<inter>| B) \<le> min (fcard A) (fcard B)
       \<and> (A = {||} \<and> B = {||} \<longrightarrow>
            deref (snd (set_and followers following w)) (length (heap w)) = Some {||})"
proof -
  from assms have v: "is_set w followers" "is_set w following"
    and A: "heap w ! following = A" and B: "heap w ! followers = B"
    by (simp_all add: deref_Some)
  have run: "set_and followers following w =
      (Inr (length (heap w)), w\<lparr>heap := heap w @ [A |\<inter>| B]\<rparr>)"
    using v A B by (simp add: set_and_def inf_commute)
  have cell: "deref (snd (set_and followers following w)) (length (heap w)) = Some (A |\<inter>| B)"
    by (simp add: run deref_def is_set_def)
  have rep: "deref (snd (write_report target followers following w)) (length (heap w))
      = Some (A |\<inter>| B)"
    using v A B by (simp add: write_report_heap_valid deref_def is_set_def inf_commute)
  have sub: "A |\<inter>| B |\<subseteq>| A" "A |\<inter>| B |\<subseteq>| B"
    "fcard (A |\<inter>| B) \<le> min (fcard A) (fcard B)"
    by (simp_all add: fcard_mono)
  have "deref (snd (set_and followers following w)) (length (heap w)) = Some {||}"
    if "A = {||} \<and> B = {||}"
    using that cell by simp
  with run cell rep sub show ?thesis by blast
qed

lemma scenario1_sets:
  "deref scenario1 0 = Some {|ascii ''alice'', ascii ''bob''|}"
  "deref scenario1 1 = Some {|ascii ''bob'', ascii ''carol''|}"
  by (simp_all add: scenario1_def deref_def is_set_def)

lemma scenario1_mutual:
  "{|ascii ''alice'', ascii ''bob''|} |\<inter>| {|ascii ''bob'', ascii ''carol''|} = {|ascii ''bob''|}"
  by (auto simp: ascii_def)

theorem mutual_is_intersection_witness:
  "deref scenario1 0 = Some {|ascii ''alice'', ascii ''bob''|}
   \<and> deref scenario1 1 = Some {|ascii ''bob'', ascii ''carol''|}
   \<and> deref (snd (set_and 1 0 scenario1)) 2 = Some {|ascii ''bob''|}
   \<and> deref (snd (write_report (ascii ''bob'') 1 0 scenario1)) 2 = Some {|ascii ''bob''|}
   \<and> deref scenario1_again 0 = Some {||}
   \<and> deref (snd (set_and 0 0 scenario1_again)) 3 = Some {||}"
proof -
  have len: "length (heap scenario1) = 2" "length (heap scenario1_again) = 3"
    by (simp_all add: scenario1_def scenario1_again_def)
  have e: "deref scenario1_again 0 = Some {||}"
    by (simp add: scenario1_again_def deref_def is_set_def)
  show ?thesis
    using scenario1_sets e mutual_is_intersection[OF scenario1_sets, of "ascii ''bob''"]
      mutual_is_intersection[OF e e, of "ascii ''bob''"]
    unfolding len scenario1_mutual by blast
qed

subsection \<open>The arguments of \<open>write_report\<close> are only read\<close>

text \<open>
  C9. \<open>write_report\<close> does not change the set objects its arguments refer to, nor any
  other set object that exists when it is called, on any of its paths; the mutual set
  goes to a reference that did not exist before.
\<close>

theorem write_report_keeps_sets:
  assumes "deref w followers = Some B" and "deref w following = Some A"
  shows "deref (snd (write_report target followers following w)) followers = Some B
       \<and> deref (snd (write_report target followers following w)) following = Some A
       \<and> (\<forall>r S. deref w r = Some S \<longrightarrow>
             deref (snd (write_report target followers following w)) r = Some S)
       \<and> deref w (length (heap w)) = None"
proof -
  obtain new where h: "heap (snd (write_report target followers following w)) = heap w @ new"
    using write_report_heap by blast
  have keep: "deref (snd (write_report target followers following w)) r = Some S"
    if "deref w r = Some S" for r S
    using that h by (auto simp: deref_def is_set_def nth_append split: if_splits)
  show ?thesis using keep assms by (simp add: deref_def is_set_def)
qed

theorem write_report_keeps_sets_witness:
  "deref scenario1 1 = Some {|ascii ''bob'', ascii ''carol''|}
   \<and> deref scenario1 0 = Some {|ascii ''alice'', ascii ''bob''|}
   \<and> deref (snd (write_report (ascii ''bob'') 1 0 scenario1)) 1
        = Some {|ascii ''bob'', ascii ''carol''|}
   \<and> deref (snd (write_report (ascii ''bob'') 1 0 scenario1)) 0
        = Some {|ascii ''alice'', ascii ''bob''|}
   \<and> deref scenario1 2 = None"
proof -
  have len: "length (heap scenario1) = 2" by (simp add: scenario1_def)
  show ?thesis
    using scenario1_sets
      write_report_keeps_sets[OF scenario1_sets(2) scenario1_sets(1), of "ascii ''bob''"]
    unfolding len by blast
qed

text \<open>By contrast \<open>s.add(x)\<close>, which \<open>get_profile_data\<close> uses, does change the object.\<close>

lemma set_add_changes_the_object:
  "deref (snd (set_add 0 (ascii ''dave'') scenario1)) 0
     = Some {|ascii ''dave'', ascii ''alice'', ascii ''bob''|}"
  by (simp add: set_add_def scenario1_def deref_def is_set_def)

lemma utf8_encodable_Cons:
  "utf8_encodable (c # s) = ((c < 0xD800 \<or> 0xDFFF < c) \<and> utf8_encodable s)"
  by (simp add: utf8_encodable_def)

text \<open>The lone surrogate: the header of the first section is written with its count 1, then
  the write of the entry raises, and the file keeps what was written before.\<close>

lemma surrogate_facts:
  "sorted_list_of_fset {|[0xD800::nat]|} = [[0xD800]]"
  "fcard {|[0xD800::nat]|} = 1"
  "\<not> utf8_encodable [0xD800]"
  by (simp_all add: sorted_list_of_fset.rep_eq utf8_encodable_def fcard_finsert_if)

lemma write_report_lone_surrogate:
  "fst (write_report (ascii ''bob'') 1 0 surrogate_world) = Inl (Raise encode_error)"
  "file_content (snd (write_report (ascii ''bob'') 1 0 surrogate_world))
     (report_filename (ascii ''bob'') (scenario_clock 0))
   = Some (report_preamble (ascii ''bob'')
             (strftime (scenario_clock 1) (ascii ''%Y-%m-%d %H:%M:%S''))
           @ ascii ''ACCOUNTS @'' @ ascii ''bob'' @ ascii '' FOLLOWS'' @ ascii '' ('' @ str_nat 1 @ ascii '')\<newline>''
           @ replicate 40 (of_char CHR ''-'') @ ascii ''\<newline>'')"
  unfolding write_report_def report_filename_def surrogate_world_def
  by (simp_all add: exec_write_report surrogate_facts utf8_encodable_Cons
      report_preamble_def)

subsection \<open>The report file\<close>

lemma write_report_file:
  assumes "deref w following = Some A" and "deref w followers = Some B"
    and "can_create w (report_filename target (clock w (ticks w)))"
    and "report_encodable target A B"
  shows "fst (write_report target followers following w) =
           Inr (report_filename target (clock w (ticks w)),
                fcard B, fcard A, fcard (A |\<inter>| B))"
    and "file_content (snd (write_report target followers following w))
           (report_filename target (clock w (ticks w))) =
         Some (report_preamble target
                 (strftime (clock w (Suc (ticks w))) (ascii ''%Y-%m-%d %H:%M:%S''))
               @ report_sections target
                   (fcard A, sorted_list_of_fset A) (fcard B, sorted_list_of_fset B)
                   (fcard (A |\<inter>| B), sorted_list_of_fset (A |\<inter>| B)))"
proof -
  from assms have v: "is_set w followers" "is_set w following"
    and A: "heap w ! following = A" and B: "heap w ! followers = B"
    by (simp_all add: deref_Some)
  have e: "report_encodable target (heap w ! following) (heap w ! followers)"
    using assms(4) A B by simp
  note run = write_report_run[OF v assms(3) e]
  show "fst (write_report target followers following w) =
           Inr (report_filename target (clock w (ticks w)),
                fcard B, fcard A, fcard (A |\<inter>| B))"
    by (simp add: run A B inf_commute)
  show "file_content (snd (write_report target followers following w))
           (report_filename target (clock w (ticks w))) =
         Some (report_preamble target
                 (strftime (clock w (Suc (ticks w))) (ascii ''%Y-%m-%d %H:%M:%S''))
               @ report_sections target
                   (fcard A, sorted_list_of_fset A) (fcard B, sorted_list_of_fset B)
                   (fcard (A |\<inter>| B), sorted_list_of_fset (A |\<inter>| B)))"
    by (simp add: run A B inf_commute file_content_def update_conv')
qed

text \<open>When \<open>write_report\<close> returns: the file could be created and every text written.\<close>

lemma write_report_returned:
  assumes "deref w following = Some A" and "deref w followers = Some B"
    and "fst (write_report target followers following w) = Inr r"
  shows "can_create w (report_filename target (clock w (ticks w)))"
    and "report_encodable target A B"
  using write_report_returns(2,3)[OF assms(3)] assms(1,2)
  by (simp_all add: deref_Some)

lemma write_report_other_files:
  assumes "deref w following = Some A" and "deref w followers = Some B"
    and "can_create w (report_filename target (clock w (ticks w)))"
  shows "name \<noteq> report_filename target (clock w (ticks w)) \<Longrightarrow>
         file_content (snd (write_report target followers following w)) name
           = file_content w name"
    and "file_content (snd (write_report target followers following w))
           (report_filename target (clock w (ticks w))) \<noteq> None"
proof -
  from assms have v: "is_set w followers" "is_set w following"
    by (simp_all add: deref_Some)
  show "file_content (snd (write_report target followers following w)) name
           = file_content w name"
    if n: "name \<noteq> report_filename target (clock w (ticks w))"
  proof (cases "report_encodable target (heap w ! following) (heap w ! followers)")
    case True
    with v assms(3) n show ?thesis
      by (simp add: write_report_run file_content_def update_conv')
  next
    case False
    from write_report_encode_error(4)[OF v assms(3) False n] show ?thesis .
  qed
  show "file_content (snd (write_report target followers following w))
           (report_filename target (clock w (ticks w))) \<noteq> None"
  proof (cases "report_encodable target (heap w ! following) (heap w ! followers)")
    case True
    with v assms(3) show ?thesis
      by (simp add: write_report_run file_content_def update_conv')
  next
    case False
    from write_report_encode_error(3)[OF v assms(3) False] show ?thesis .
  qed
qed

text \<open>
  C2. When \<open>write_report\<close> returns, which it does when the file can be created and every
  username can be encoded, the report is the preamble followed by three sections in the
  order following, followers, mutual. Each section starts with a header line made of its
  label and its count, and lists its entries one per line, each prefixed with \<open>@\<close>; the
  entries of a section are the elements of its set in ascending lexicographic order,
  without duplicates.
\<close>

theorem report_three_sorted_sections:
  assumes "deref w following = Some A" and "deref w followers = Some B"
  shows "(can_create w (report_filename target (clock w (ticks w)))
          \<and> report_encodable target A B \<longrightarrow>
            (\<exists>r. fst (write_report target followers following w) = Inr r))
       \<and> (\<forall>r. fst (write_report target followers following w) = Inr r \<longrightarrow>
            file_content (snd (write_report target followers following w))
              (report_filename target (clock w (ticks w))) =
            Some (report_preamble target
                    (strftime (clock w (Suc (ticks w))) (ascii ''%Y-%m-%d %H:%M:%S''))
                  @ report_sections target
                      (fcard A, sorted_list_of_fset A) (fcard B, sorted_list_of_fset B)
                      (fcard (A |\<inter>| B), sorted_list_of_fset (A |\<inter>| B))))
       \<and> sorted (sorted_list_of_fset A) \<and> distinct (sorted_list_of_fset A)
       \<and> set (sorted_list_of_fset A) = fset A
       \<and> sorted (sorted_list_of_fset B) \<and> distinct (sorted_list_of_fset B)
       \<and> set (sorted_list_of_fset B) = fset B
       \<and> sorted (sorted_list_of_fset (A |\<inter>| B)) \<and> distinct (sorted_list_of_fset (A |\<inter>| B))
       \<and> set (sorted_list_of_fset (A |\<inter>| B)) = fset (A |\<inter>| B)"
proof -
  have "\<exists>r. fst (write_report target followers following w) = Inr r"
    if "can_create w (report_filename target (clock w (ticks w)))"
       "report_encodable target A B"
    using write_report_file(1)[OF assms that] by simp
  moreover have "file_content (snd (write_report target followers following w))
              (report_filename target (clock w (ticks w))) =
            Some (report_preamble target
                    (strftime (clock w (Suc (ticks w))) (ascii ''%Y-%m-%d %H:%M:%S''))
                  @ report_sections target
                      (fcard A, sorted_list_of_fset A) (fcard B, sorted_list_of_fset B)
                      (fcard (A |\<inter>| B), sorted_list_of_fset (A |\<inter>| B)))"
    if "fst (write_report target followers following w) = Inr r" for r
    using write_report_file(2)[OF assms write_report_returned[OF assms that]] .
  ultimately show ?thesis
    by (simp add: sorted_sorted_list_of_fset distinct_sorted_list_of_fset)
qed

lemma scenario1_sorted:
  "sorted_list_of_fset {|ascii ''alice'', ascii ''bob''|} = [ascii ''alice'', ascii ''bob'']"
  "sorted_list_of_fset {|ascii ''bob'', ascii ''carol''|} = [ascii ''bob'', ascii ''carol'']"
  "sorted_list_of_fset {|ascii ''bob''|} = [ascii ''bob'']"
  by code_simp+

lemma scenario1_fcard:
  "fcard {|ascii ''alice'', ascii ''bob''|} = 2"
  "fcard {|ascii ''bob'', ascii ''carol''|} = 2"
  "fcard {|ascii ''bob''|} = 1"
  by (simp_all add: fcard_finsert_if ascii_def)

lemma scenario1_filename:
  "report_filename (ascii ''bob'') (clock scenario1 (ticks scenario1))
     = ascii ''bob_analysis_20240309_070500.txt''"
  by (simp add: report_filename_def scenario1_def scenario_clock_def zfill_def str_nat.simps
      ascii_def)

lemma scenario1_can_create: "can_create scenario1 name"
  by (simp add: scenario1_def)

lemma scenario1_generated:
  "strftime (clock scenario1 (Suc (ticks scenario1))) (ascii ''%Y-%m-%d %H:%M:%S'')
     = ascii ''2024-03-09 07:05:01''"
  by (simp add: scenario1_def scenario_clock_def directive_def zfill_def str_nat.simps ascii_def)

lemma scenario1_text:
  "report_preamble (ascii ''bob'') (ascii ''2024-03-09 07:05:01'')
   @ report_sections (ascii ''bob'')
       (2, [ascii ''alice'', ascii ''bob'']) (2, [ascii ''bob'', ascii ''carol''])
       (1, [ascii ''bob''])
   = ascii ''Instagram Follower Analysis for @bob\<newline>Generated: 2024-03-09 07:05:01\<newline>============================================================\<newline>\<newline>ACCOUNTS @bob FOLLOWS (2)\<newline>----------------------------------------\<newline>@alice\<newline>@bob\<newline>\<newline>ACCOUNTS THAT FOLLOW @bob (2)\<newline>----------------------------------------\<newline>@bob\<newline>@carol\<newline>\<newline>MUTUAL FOLLOWS - Both follow each other (1)\<newline>----------------------------------------\<newline>@bob\<newline>''"
  by code_simp

lemma scenario1_encodable:
  "report_encodable (ascii ''bob'') {|ascii ''alice'', ascii ''bob''|}
     {|ascii ''bob'', ascii ''carol''|}"
  by (auto simp: report_encodable_def list_all_sorted_list_of_fset)

theorem report_three_sorted_sections_witness:
  "deref scenario1 0 = Some {|ascii ''alice'', ascii ''bob''|}
   \<and> deref scenario1 1 = Some {|ascii ''bob'', ascii ''carol''|}
   \<and> can_create scenario1 (ascii ''bob_analysis_20240309_070500.txt'')
   \<and> report_encodable (ascii ''bob'') {|ascii ''alice'', ascii ''bob''|}
        {|ascii ''bob'', ascii ''carol''|}
   \<and> (\<exists>r. fst (write_report (ascii ''bob'') 1 0 scenario1) = Inr r)
   \<and> file_content (snd (write_report (ascii ''bob'') 1 0 scenario1))
        (ascii ''bob_analysis_20240309_070500.txt'')
      = Some (ascii ''Instagram Follower Analysis for @bob\<newline>Generated: 2024-03-09 07:05:01\<newline>============================================================\<newline>\<newline>ACCOUNTS @bob FOLLOWS (2)\<newline>----------------------------------------\<newline>@alice\<newline>@bob\<newline>\<newline>ACCOUNTS THAT FOLLOW @bob (2)\<newline>----------------------------------------\<newline>@bob\<newline>@carol\<newline>\<newline>MUTUAL FOLLOWS - Both follow each other (1)\<newline>----------------------------------------\<newline>@bob\<newline>'')"
proof -
  note t = report_three_sorted_sections[OF scenario1_sets, of "ascii ''bob''"]
  from t scenario1_can_create scenario1_encodable
  have r: "\<exists>r. fst (write_report (ascii ''bob'') 1 0 scenario1) = Inr r"
    by blast
  with t have "file_content (snd (write_report (ascii ''bob'') 1 0 scenario1))
        (report_filename (ascii ''bob'') (clock scenario1 (ticks scenario1)))
      = Some (report_preamble (ascii ''bob'')
                 (strftime (clock scenario1 (Suc (ticks scenario1))) (ascii ''%Y-%m-%d %H:%M:%S''))
               @ report_sections (ascii ''bob'')
                   (fcard {|ascii ''alice'', ascii ''bob''|},
                    sorted_list_of_fset {|ascii ''alice'', ascii ''bob''|})
                   (fcard {|ascii ''bob'', ascii ''carol''|},
                    sorted_list_of_fset {|ascii ''bob'', ascii ''carol''|})
                   (fcard ({|ascii ''alice'', ascii ''bob''|} |\<inter>| {|ascii ''bob'', ascii ''carol''|}),
                    sorted_list_of_fset
                      ({|ascii ''alice'', ascii ''bob''|} |\<inter>| {|ascii ''bob'', ascii ''carol''|})))"
    by blast
  then have c: "file_content (snd (write_report (ascii ''bob'') 1 0 scenario1))
        (ascii ''bob_analysis_20240309_070500.txt'')
      = Some (ascii ''Instagram Follower Analysis for @bob\<newline>Generated: 2024-03-09 07:05:01\<newline>============================================================\<newline>\<newline>ACCOUNTS @bob FOLLOWS (2)\<newline>----------------------------------------\<newline>@alice\<newline>@bob\<newline>\<newline>ACCOUNTS THAT FOLLOW @bob (2)\<newline>----------------------------------------\<newline>@bob\<newline>@carol\<newline>\<newline>MUTUAL FOLLOWS - Both follow each other (1)\<newline>----------------------------------------\<newline>@bob\<newline>'')"
    unfolding scenario1_mutual scenario1_sorted scenario1_fcard scenario1_filename
      scenario1_generated scenario1_text .
  show ?thesis
    using scenario1_sets scenario1_can_create scenario1_encodable r c by blast
qed

subsection \<open>The name of the report file\<close>

lemma timestamp_shape:
  assumes "valid_datetime d"
  shows "\<exists>ts. report_filename target d = target @ ascii ''_analysis_'' @ ts @ ascii ''.txt''
              \<and> length ts = 15 \<and> ts ! 8 = of_char CHR ''_''
              \<and> (\<forall>i<15. i \<noteq> 8 \<longrightarrow> isdigit (ts ! i))"
proof -
  let ?date = "zfill 4 (str_nat (dt_year d)) @ zfill 2 (str_nat (dt_month d))
               @ zfill 2 (str_nat (dt_day d))"
  let ?time = "zfill 2 (str_nat (dt_hour d)) @ zfill 2 (str_nat (dt_minute d))
               @ zfill 2 (str_nat (dt_second d))"
  let ?ts = "?date @ ascii ''_'' @ ?time"
  from assms have len_date: "length ?date = 8" and len_time: "length ?time = 6"
    by (simp_all add: valid_datetime_def zfill_length)
  have dig_date: "isdigit c" if "c \<in> set ?date" for c
    using that zfill_digits by auto
  have dig_time: "isdigit c" if "c \<in> set ?time" for c
    using that zfill_digits by auto
  have "report_filename target d = target @ ascii ''_analysis_'' @ ?ts @ ascii ''.txt''"
    by (simp add: report_filename_def)
  moreover have "length ?ts = 15"
    using len_date len_time by (simp add: ascii_def)
  moreover have "?ts ! 8 = of_char CHR ''_''"
    using len_date by (simp add: nth_append ascii_def del: append_assoc)
  moreover have "isdigit (?ts ! i)" if "i < 15" "i \<noteq> 8" for i
  proof (cases "i < 8")
    case True
    then have "?ts ! i = ?date ! i" using len_date by (simp add: nth_append del: append_assoc)
    moreover have "?date ! i \<in> set ?date" using True len_date nth_mem by metis
    ultimately show ?thesis using dig_date by simp
  next
    case False
    with that have i: "9 \<le> i" "i - 9 < 6" by auto
    have "?ts ! i = (ascii ''_'' @ ?time) ! (i - 8)"
      using False len_date by (simp add: nth_append del: append_assoc)
    also have "\<dots> = ?time ! (i - 9)"
      using i by (simp add: ascii_def nth_Cons')
    finally have "?ts ! i = ?time ! (i - 9)" .
    moreover have "?time ! (i - 9) \<in> set ?time" using i len_time nth_mem by metis
    ultimately show ?thesis using dig_time by simp
  qed
  ultimately show ?thesis by blast
qed

text \<open>
  C7. When the file can be created, \<open>write_report\<close> creates exactly one file and touches
  no other, on every path. Its name is the target username, \<open>_analysis_\<close>, the first
  reading of the clock formatted by \<open>%Y%m%d_%H%M%S\<close>, and \<open>.txt\<close>; for a time that
  \<open>datetime.now()\<close> can return the timestamp is 8 digits, an underscore and 6 digits.
  This is the name \<open>write_report\<close> returns when every username can be encoded, and it
  returns no other name.
\<close>

theorem report_filename_format:
  assumes "deref w following = Some A" and "deref w followers = Some B"
    and "now = clock w (ticks w)"
    and "can_create w (report_filename target now)"
  shows "(report_encodable target A B \<longrightarrow>
           (\<exists>counts. fst (write_report target followers following w)
                      = Inr (report_filename target now, counts)))
       \<and> (\<forall>name counts. fst (write_report target followers following w) = Inr (name, counts)
             \<longrightarrow> name = report_filename target now)
       \<and> file_content (snd (write_report target followers following w))
            (report_filename target now) \<noteq> None
       \<and> (\<forall>name. name \<noteq> report_filename target now \<longrightarrow>
             file_content (snd (write_report target followers following w)) name
               = file_content w name)
       \<and> report_filename target now
           = target @ ascii ''_analysis_'' @ strftime now (ascii ''%Y%m%d_%H%M%S'')
             @ ascii ''.txt''
       \<and> (valid_datetime now \<longrightarrow>
            (\<exists>ts. report_filename target now
                    = target @ ascii ''_analysis_'' @ ts @ ascii ''.txt''
                 \<and> length ts = 15 \<and> ts ! 8 = of_char CHR ''_''
                 \<and> (\<forall>i<15. i \<noteq> 8 \<longrightarrow> isdigit (ts ! i))))"
proof -
  from assms have c: "can_create w (report_filename target (clock w (ticks w)))" by simp
  have "\<exists>counts. fst (write_report target followers following w)
                      = Inr (report_filename target now, counts)"
    if "report_encodable target A B"
    using write_report_file(1)[OF assms(1,2) c that] assms(3) by simp
  moreover have "name = report_filename target now"
    if "fst (write_report target followers following w) = Inr (name, counts)" for name counts
    using write_report_file(1)[OF assms(1,2) c write_report_returned(2)[OF assms(1,2) that]]
      that assms(3)
    by simp
  moreover have "file_content (snd (write_report target followers following w))
            (report_filename target now) \<noteq> None"
    using write_report_other_files(2)[OF assms(1,2) c] assms(3) by simp
  moreover have "\<forall>name. name \<noteq> report_filename target now \<longrightarrow>
             file_content (snd (write_report target followers following w)) name
               = file_content w name"
    using write_report_other_files(1)[OF assms(1,2) c] assms(3) by simp
  moreover have "report_filename target now
           = target @ ascii ''_analysis_'' @ strftime now (ascii ''%Y%m%d_%H%M%S'')
             @ ascii ''.txt''"
    by (simp add: report_filename_def strftime_filename)
  ultimately show ?thesis using timestamp_shape by blast
qed

lemma scenario1_now_valid: "valid_datetime (clock scenario1 (ticks scenario1))"
  by (simp add: scenario1_def scenario_clock_def valid_datetime_def)

theorem report_filename_format_witness:
  "deref scenario1 0 = Some {|ascii ''alice'', ascii ''bob''|}
   \<and> deref scenario1 1 = Some {|ascii ''bob'', ascii ''carol''|}
   \<and> can_create scenario1 (ascii ''bob_analysis_20240309_070500.txt'')
   \<and> report_encodable (ascii ''bob'') {|ascii ''alice'', ascii ''bob''|}
        {|ascii ''bob'', ascii ''carol''|}
   \<and> valid_datetime (clock scenario1 (ticks scenario1))
   \<and> (\<exists>counts. fst (write_report (ascii ''bob'') 1 0 scenario1)
                   = Inr (ascii ''bob_analysis_20240309_070500.txt'', counts))
   \<and> file_content (snd (write_report (ascii ''bob'') 1 0 scenario1))
        (ascii ''bob_analysis_20240309_070500.txt'') \<noteq> None
   \<and> (\<exists>ts. ascii ''bob_analysis_20240309_070500.txt''
              = ascii ''bob'' @ ascii ''_analysis_'' @ ts @ ascii ''.txt''
            \<and> length ts = 15 \<and> ts ! 8 = of_char CHR ''_''
            \<and> (\<forall>i<15. i \<noteq> 8 \<longrightarrow> isdigit (ts ! i)))"
proof -
  have c: "can_create scenario1 (report_filename (ascii ''bob'') (clock scenario1 (ticks scenario1)))"
    by (rule scenario1_can_create)
  show ?thesis
    using scenario1_sets scenario1_can_create scenario1_now_valid scenario1_encodable
      report_filename_format[OF scenario1_sets refl c]
    unfolding scenario1_filename
    by blast
qed

subsection \<open>The content does not depend on the run\<close>

text \<open>
  C8. Take two runs of \<open>write_report\<close> for the same target on the same two sets, in any
  two states of the world (other clocks, other set objects, other files). Where the files
  can be created, one run returns if and only if the other does, and both do when every
  username can be encoded. When both return, they return the same counts and have written
  the same three sections; the files differ at most in their name and in the time of the
  preamble.
\<close>

theorem report_content_deterministic:
  assumes "deref w1 following1 = Some A" and "deref w1 followers1 = Some B"
    and "deref w2 following2 = Some A" and "deref w2 followers2 = Some B"
  shows "(can_create w1 (report_filename target (clock w1 (ticks w1)))
          \<and> can_create w2 (report_filename target (clock w2 (ticks w2)))
          \<and> report_encodable target A B \<longrightarrow>
            (\<exists>r1 r2. fst (write_report target followers1 following1 w1) = Inr r1
                   \<and> fst (write_report target followers2 following2 w2) = Inr r2))
    \<and> (can_create w1 (report_filename target (clock w1 (ticks w1)))
          \<and> can_create w2 (report_filename target (clock w2 (ticks w2))) \<longrightarrow>
            ((\<exists>r1. fst (write_report target followers1 following1 w1) = Inr r1)
             \<longleftrightarrow> (\<exists>r2. fst (write_report target followers2 following2 w2) = Inr r2)))
    \<and> (\<forall>r1 r2. fst (write_report target followers1 following1 w1) = Inr r1
          \<and> fst (write_report target followers2 following2 w2) = Inr r2 \<longrightarrow>
       (\<exists>counts sections.
          r1 = (report_filename target (clock w1 (ticks w1)), counts)
        \<and> r2 = (report_filename target (clock w2 (ticks w2)), counts)
        \<and> file_content (snd (write_report target followers1 following1 w1))
              (report_filename target (clock w1 (ticks w1)))
            = Some (report_preamble target
                      (strftime (clock w1 (Suc (ticks w1))) (ascii ''%Y-%m-%d %H:%M:%S''))
                    @ sections)
        \<and> file_content (snd (write_report target followers2 following2 w2))
              (report_filename target (clock w2 (ticks w2)))
            = Some (report_preamble target
                      (strftime (clock w2 (Suc (ticks w2))) (ascii ''%Y-%m-%d %H:%M:%S''))
                    @ sections)
        \<and> sections = report_sections target
            (fcard A, sorted_list_of_fset A) (fcard B, sorted_list_of_fset B)
            (fcard (A |\<inter>| B), sorted_list_of_fset (A |\<inter>| B))))"
proof -
  let ?run1 = "write_report target followers1 following1 w1"
  let ?run2 = "write_report target followers2 following2 w2"
  let ?c1 = "can_create w1 (report_filename target (clock w1 (ticks w1)))"
  let ?c2 = "can_create w2 (report_filename target (clock w2 (ticks w2)))"
  have ret1: "\<exists>r. fst ?run1 = Inr r" if ?c1 "report_encodable target A B"
    using write_report_file(1)[OF assms(1,2) that] by simp
  have ret2: "\<exists>r. fst ?run2 = Inr r" if ?c2 "report_encodable target A B"
    using write_report_file(1)[OF assms(3,4) that] by simp
  have enc1: "report_encodable target A B" if "fst ?run1 = Inr r" for r
    using write_report_returned(2)[OF assms(1,2) that] .
  have enc2: "report_encodable target A B" if "fst ?run2 = Inr r" for r
    using write_report_returned(2)[OF assms(3,4) that] .
  have same: "\<exists>counts sections.
          r1 = (report_filename target (clock w1 (ticks w1)), counts)
        \<and> r2 = (report_filename target (clock w2 (ticks w2)), counts)
        \<and> file_content (snd ?run1) (report_filename target (clock w1 (ticks w1)))
            = Some (report_preamble target
                      (strftime (clock w1 (Suc (ticks w1))) (ascii ''%Y-%m-%d %H:%M:%S''))
                    @ sections)
        \<and> file_content (snd ?run2) (report_filename target (clock w2 (ticks w2)))
            = Some (report_preamble target
                      (strftime (clock w2 (Suc (ticks w2))) (ascii ''%Y-%m-%d %H:%M:%S''))
                    @ sections)
        \<and> sections = report_sections target
            (fcard A, sorted_list_of_fset A) (fcard B, sorted_list_of_fset B)
            (fcard (A |\<inter>| B), sorted_list_of_fset (A |\<inter>| B))"
    if r: "fst ?run1 = Inr r1" "fst ?run2 = Inr r2" for r1 r2
    using write_report_file[OF assms(1,2) write_report_returned[OF assms(1,2) r(1)]]
      write_report_file[OF assms(3,4) write_report_returned[OF assms(3,4) r(2)]] r
    by simp
  show ?thesis using ret1 ret2 enc1 enc2 same by blast
qed

lemma scenario1_again_sets:
  "deref scenario1_again 2 = Some {|ascii ''alice'', ascii ''bob''|}"
  "deref scenario1_again 1 = Some {|ascii ''bob'', ascii ''carol''|}"
  by (auto simp: scenario1_again_def deref_def is_set_def)

lemma scenario1_again_can_create: "can_create scenario1_again name"
  by (simp add: scenario1_again_def)

lemma scenario1_again_filename:
  "report_filename (ascii ''bob'') (clock scenario1_again (ticks scenario1_again))
     = ascii ''bob_analysis_20251231_235914.txt''"
  by (simp add: report_filename_def scenario1_again_def zfill_def str_nat.simps ascii_def)

lemma scenario1_again_generated:
  "strftime (clock scenario1_again (Suc (ticks scenario1_again))) (ascii ''%Y-%m-%d %H:%M:%S'')
     = ascii ''2025-12-31 23:59:15''"
  by (simp add: scenario1_again_def directive_def zfill_def str_nat.simps ascii_def)

theorem report_content_deterministic_witness:
  "deref scenario1 0 = Some {|ascii ''alice'', ascii ''bob''|}
   \<and> deref scenario1 1 = Some {|ascii ''bob'', ascii ''carol''|}
   \<and> deref scenario1_again 2 = Some {|ascii ''alice'', ascii ''bob''|}
   \<and> deref scenario1_again 1 = Some {|ascii ''bob'', ascii ''carol''|}
   \<and> can_create scenario1 (ascii ''bob_analysis_20240309_070500.txt'')
   \<and> can_create scenario1_again (ascii ''bob_analysis_20251231_235914.txt'')
   \<and> report_encodable (ascii ''bob'') {|ascii ''alice'', ascii ''bob''|}
        {|ascii ''bob'', ascii ''carol''|}
   \<and> (\<exists>counts sections.
      fst (write_report (ascii ''bob'') 1 0 scenario1)
        = Inr (ascii ''bob_analysis_20240309_070500.txt'', counts)
    \<and> fst (write_report (ascii ''bob'') 1 2 scenario1_again)
        = Inr (ascii ''bob_analysis_20251231_235914.txt'', counts)
    \<and> file_content (snd (write_report (ascii ''bob'') 1 0 scenario1))
          (ascii ''bob_analysis_20240309_070500.txt'')
        = Some (report_preamble (ascii ''bob'') (ascii ''2024-03-09 07:05:01'') @ sections)
    \<and> file_content (snd (write_report (ascii ''bob'') 1 2 scenario1_again))
          (ascii ''bob_analysis_20251231_235914.txt'')
        = Some (report_preamble (ascii ''bob'') (ascii ''2025-12-31 23:59:15'') @ sections))"
proof -
  have c1: "can_create scenario1 (report_filename (ascii ''bob'') (clock scenario1 (ticks scenario1)))"
    by (rule scenario1_can_create)
  have c2: "can_create scenario1_again
      (report_filename (ascii ''bob'') (clock scenario1_again (ticks scenario1_again)))"
    by (rule scenario1_again_can_create)
  note t = report_content_deterministic[OF scenario1_sets scenario1_again_sets,
      of "ascii ''bob''"]
  from t c1 c2 scenario1_encodable
  obtain r1 r2 where r: "fst (write_report (ascii ''bob'') 1 0 scenario1) = Inr r1"
    "fst (write_report (ascii ''bob'') 1 2 scenario1_again) = Inr r2"
    by blast
  with t have "\<exists>counts sections.
      r1 = (report_filename (ascii ''bob'') (clock scenario1 (ticks scenario1)), counts)
    \<and> r2 = (report_filename (ascii ''bob'') (clock scenario1_again (ticks scenario1_again)),
             counts)
    \<and> file_content (snd (write_report (ascii ''bob'') 1 0 scenario1))
          (report_filename (ascii ''bob'') (clock scenario1 (ticks scenario1)))
        = Some (report_preamble (ascii ''bob'')
                  (strftime (clock scenario1 (Suc (ticks scenario1)))
                     (ascii ''%Y-%m-%d %H:%M:%S''))
                @ sections)
    \<and> file_content (snd (write_report (ascii ''bob'') 1 2 scenario1_again))
          (report_filename (ascii ''bob'') (clock scenario1_again (ticks scenario1_again)))
        = Some (report_preamble (ascii ''bob'')
                  (strftime (clock scenario1_again (Suc (ticks scenario1_again)))
                     (ascii ''%Y-%m-%d %H:%M:%S''))
                @ sections)"
    by blast
  with r have "\<exists>counts sections.
      fst (write_report (ascii ''bob'') 1 0 scenario1)
        = Inr (ascii ''bob_analysis_20240309_070500.txt'', counts)
    \<and> fst (write_report (ascii ''bob'') 1 2 scenario1_again)
        = Inr (ascii ''bob_analysis_20251231_235914.txt'', counts)
    \<and> file_content (snd (write_report (ascii ''bob'') 1 0 scenario1))
          (ascii ''bob_analysis_20240309_070500.txt'')
        = Some (report_preamble (ascii ''bob'') (ascii ''2024-03-09 07:05:01'') @ sections)
    \<and> file_content (snd (write_report (ascii ''bob'') 1 2 scenario1_again))
          (ascii ''bob_analysis_20251231_235914.txt'')
        = Some (report_preamble (ascii ''bob'') (ascii ''2025-12-31 23:59:15'') @ sections)"
    unfolding scenario1_filename scenario1_again_filename scenario1_generated
      scenario1_again_generated
    by blast
  then show ?thesis
    using scenario1_sets scenario1_again_sets scenario1_can_create scenario1_again_can_create
      scenario1_encodable
    by blast
qed

subsection \<open>The counts\<close>

lemma main_report_run:
  assumes "deref w following = Some A" and "deref w followers = Some B"
    and "can_create w (report_filename target (clock w (ticks w)))"
    and "report_encodable target A B"
  shows "fst (main_report target followers following w) = Inr ()"
    and "console_out (snd (main_report target followers following w)) =
           console_out w @
           [ascii ''\<newline>Writing report...'' @ ascii ''\<newline>'',
            ascii ''\<newline>Analysis complete!'' @ ascii ''\<newline>'',
            ascii ''  Following:      '' @ str_nat (fcard A) @ ascii ''\<newline>'',
            ascii ''  Followers:      '' @ str_nat (fcard B) @ ascii ''\<newline>'',
            ascii ''  Mutual follows: '' @ str_nat (fcard (A |\<inter>| B)) @ ascii ''\<newline>'',
            ascii ''\<newline>Report saved to: '' @ report_filename target (clock w (ticks w))
              @ ascii ''\<newline>'']"
    and "file_content (snd (main_report target followers following w))
           (report_filename target (clock w (ticks w))) =
         Some (report_preamble target
                 (strftime (clock w (Suc (ticks w))) (ascii ''%Y-%m-%d %H:%M:%S''))
               @ report_sections target
                   (fcard A, sorted_list_of_fset A) (fcard B, sorted_list_of_fset B)
                   (fcard (A |\<inter>| B), sorted_list_of_fset (A |\<inter>| B)))"
proof -
  from assms have v: "is_set w followers" "is_set w following"
    and A: "heap w ! following = A" and B: "heap w ! followers = B"
    by (simp_all add: deref_Some)
  let ?w0 = "w\<lparr>console_out := console_out w @ [ascii ''\<newline>Writing report...'' @ ascii ''\<newline>'']\<rparr>"
  have v0: "is_set ?w0 followers" "is_set ?w0 following"
    using v by (simp_all add: is_set_def)
  have c0: "can_create ?w0 (report_filename target (clock ?w0 (ticks ?w0)))"
    using assms(3) by simp
  have e0: "report_encodable target (heap ?w0 ! following) (heap ?w0 ! followers)"
    using assms(4) A B by simp
  note run = write_report_run[OF v0 c0 e0]
  show "fst (main_report target followers following w) = Inr ()"
    unfolding main_report_def
    by (simp add: andthen_def py_print_def print_end_def run)
  show "console_out (snd (main_report target followers following w)) =
           console_out w @
           [ascii ''\<newline>Writing report...'' @ ascii ''\<newline>'',
            ascii ''\<newline>Analysis complete!'' @ ascii ''\<newline>'',
            ascii ''  Following:      '' @ str_nat (fcard A) @ ascii ''\<newline>'',
            ascii ''  Followers:      '' @ str_nat (fcard B) @ ascii ''\<newline>'',
            ascii ''  Mutual follows: '' @ str_nat (fcard (A |\<inter>| B)) @ ascii ''\<newline>'',
            ascii ''\<newline>Report saved to: '' @ report_filename target (clock w (ticks w))
              @ ascii ''\<newline>'']"
    unfolding main_report_def
    by (simp add: andthen_def py_print_def print_end_def run A B inf_commute)
  show "file_content (snd (main_report target followers following w))
           (report_filename target (clock w (ticks w))) =
         Some (report_preamble target
                 (strftime (clock w (Suc (ticks w))) (ascii ''%Y-%m-%d %H:%M:%S''))
               @ report_sections target
                   (fcard A, sorted_list_of_fset A) (fcard B, sorted_list_of_fset B)
                   (fcard (A |\<inter>| B), sorted_list_of_fset (A |\<inter>| B)))"
    unfolding main_report_def
    by (simp add: andthen_def py_print_def print_end_def run A B inf_commute
        file_content_def update_conv')
qed

text \<open>
  C10. When \<open>write_report\<close> returns, the count of each header of the report is the
  cardinality of the section's set and the number of its entries, and the three counts are
  the ones \<open>write_report\<close> returns, which lines 130-133 print as the summary.
\<close>

theorem report_counts_agree:
  assumes "deref w following = Some A" and "deref w followers = Some B"
  shows "(can_create w (report_filename target (clock w (ticks w)))
          \<and> report_encodable target A B \<longrightarrow>
            (\<exists>r. fst (write_report target followers following w) = Inr r))
       \<and> (\<forall>r. fst (write_report target followers following w) = Inr r \<longrightarrow>
            r = (report_filename target (clock w (ticks w)),
                 fcard B, fcard A, fcard (A |\<inter>| B))
          \<and> file_content (snd (write_report target followers following w))
               (report_filename target (clock w (ticks w))) =
             Some (report_preamble target
                     (strftime (clock w (Suc (ticks w))) (ascii ''%Y-%m-%d %H:%M:%S''))
                   @ report_sections target
                       (fcard A, sorted_list_of_fset A) (fcard B, sorted_list_of_fset B)
                       (fcard (A |\<inter>| B), sorted_list_of_fset (A |\<inter>| B)))
          \<and> fst (main_report target followers following w) = Inr ()
          \<and> console_out (snd (main_report target followers following w)) =
               console_out w @
               [ascii ''\<newline>Writing report...'' @ ascii ''\<newline>'',
                ascii ''\<newline>Analysis complete!'' @ ascii ''\<newline>'',
                ascii ''  Following:      '' @ str_nat (fcard A) @ ascii ''\<newline>'',
                ascii ''  Followers:      '' @ str_nat (fcard B) @ ascii ''\<newline>'',
                ascii ''  Mutual follows: '' @ str_nat (fcard (A |\<inter>| B)) @ ascii ''\<newline>'',
                ascii ''\<newline>Report saved to: '' @ report_filename target (clock w (ticks w))
                  @ ascii ''\<newline>''])
       \<and> length (sorted_list_of_fset A) = fcard A
       \<and> length (sorted_list_of_fset B) = fcard B
       \<and> length (sorted_list_of_fset (A |\<inter>| B)) = fcard (A |\<inter>| B)"
proof -
  have "\<exists>r. fst (write_report target followers following w) = Inr r"
    if "can_create w (report_filename target (clock w (ticks w)))"
       "report_encodable target A B"
    using write_report_file(1)[OF assms that] by simp
  moreover have "r = (report_filename target (clock w (ticks w)),
                 fcard B, fcard A, fcard (A |\<inter>| B))
          \<and> file_content (snd (write_report target followers following w))
               (report_filename target (clock w (ticks w))) =
             Some (report_preamble target
                     (strftime (clock w (Suc (ticks w))) (ascii ''%Y-%m-%d %H:%M:%S''))
                   @ report_sections target
                       (fcard A, sorted_list_of_fset A) (fcard B, sorted_list_of_fset B)
                       (fcard (A |\<inter>| B), sorted_list_of_fset (A |\<inter>| B)))
          \<and> fst (main_report target followers following w) = Inr ()
          \<and> console_out (snd (main_report target followers following w)) =
               console_out w @
               [ascii ''\<newline>Writing report...'' @ ascii ''\<newline>'',
                ascii ''\<newline>Analysis complete!'' @ ascii ''\<newline>'',
                ascii ''  Following:      '' @ str_nat (fcard A) @ ascii ''\<newline>'',
                ascii ''  Followers:      '' @ str_nat (fcard B) @ ascii ''\<newline>'',
                ascii ''  Mutual follows: '' @ str_nat (fcard (A |\<inter>| B)) @ ascii ''\<newline>'',
                ascii ''\<newline>Report saved to: '' @ report_filename target (clock w (ticks w))
                  @ ascii ''\<newline>'']"
    if r: "fst (write_report target followers following w) = Inr r" for r
  proof -
    note ok = write_report_returned[OF assms r]
    show ?thesis
      using write_report_file[OF assms ok] main_report_run(1,2)[OF assms ok] r by simp
  qed
  ultimately show ?thesis
    by (simp add: length_sorted_list_of_fset)
qed

theorem report_counts_agree_witness:
  "deref scenario1 0 = Some {|ascii ''alice'', ascii ''bob''|}
   \<and> deref scenario1 1 = Some {|ascii ''bob'', ascii ''carol''|}
   \<and> can_create scenario1 (ascii ''bob_analysis_20240309_070500.txt'')
   \<and> report_encodable (ascii ''bob'') {|ascii ''alice'', ascii ''bob''|}
        {|ascii ''bob'', ascii ''carol''|}
   \<and> fst (write_report (ascii ''bob'') 1 0 scenario1)
        = Inr (ascii ''bob_analysis_20240309_070500.txt'', 2, 2, 1)
   \<and> fst (main_report (ascii ''bob'') 1 0 scenario1) = Inr ()
   \<and> length (sorted_list_of_fset {|ascii ''alice'', ascii ''bob''|}) = 2
   \<and> length (sorted_list_of_fset {|ascii ''bob'', ascii ''carol''|}) = 2
   \<and> length (sorted_list_of_fset {|ascii ''bob''|}) = 1"
proof -
  note t = report_counts_agree[OF scenario1_sets, of "ascii ''bob''"]
  from t scenario1_can_create scenario1_encodable
  obtain r where r: "fst (write_report (ascii ''bob'') 1 0 scenario1) = Inr r"
    by blast
  with t have "r = (report_filename (ascii ''bob'') (clock scenario1 (ticks scenario1)),
      fcard {|ascii ''bob'', ascii ''carol''|}, fcard {|ascii ''alice'', ascii ''bob''|},
      fcard ({|ascii ''alice'', ascii ''bob''|} |\<inter>| {|ascii ''bob'', ascii ''carol''|}))"
    and m: "fst (main_report (ascii ''bob'') 1 0 scenario1) = Inr ()"
    by blast+
  with r have w: "fst (write_report (ascii ''bob'') 1 0 scenario1)
        = Inr (ascii ''bob_analysis_20240309_070500.txt'', 2, 2, 1)"
    unfolding scenario1_mutual scenario1_fcard scenario1_filename by simp
  from t have l: "length (sorted_list_of_fset {|ascii ''alice'', ascii ''bob''|}) = 2"
    "length (sorted_list_of_fset {|ascii ''bob'', ascii ''carol''|}) = 2"
    "length (sorted_list_of_fset {|ascii ''bob''|}) = 1"
    unfolding scenario1_mutual scenario1_fcard by blast+
  show ?thesis
    using scenario1_sets scenario1_can_create scenario1_encodable w m l by blast
qed

subsection \<open>The target username\<close>

lemma takeWhile_all: "\<forall>x\<in>set (takeWhile P xs). P x"
  by (auto dest: set_takeWhileD)

lemma strip_decomp:
  "\<exists>ws ws'. line = ws @ strip line @ ws' \<and> (\<forall>c\<in>set ws. isspace c) \<and> (\<forall>c\<in>set ws'. isspace c)"
proof -
  let ?l = "dropWhile isspace line"
  let ?ws = "takeWhile isspace line"
  let ?ws' = "rev (takeWhile isspace (rev ?l))"
  have "rev (dropWhile isspace (rev ?l)) @ ?ws'
      = rev (takeWhile isspace (rev ?l) @ dropWhile isspace (rev ?l))"
    by (simp only: rev_append)
  also have "\<dots> = rev (rev ?l)" by (simp only: takeWhile_dropWhile_id)
  also have "\<dots> = ?l" by (simp only: rev_rev_ident)
  finally have "?l = strip line @ ?ws'"
    by (simp only: strip_def lstrip_def rstrip_def)
  moreover have "line = ?ws @ ?l" by simp
  ultimately have "line = ?ws @ strip line @ ?ws'" by simp
  moreover have "\<forall>c\<in>set ?ws. isspace c" by (rule takeWhile_all)
  moreover have "\<forall>c\<in>set ?ws'. isspace c" using takeWhile_all[of isspace "rev ?l"] by simp
  ultimately show ?thesis by blast
qed

lemma strip_last: "strip line \<noteq> [] \<Longrightarrow> \<not> isspace (last (strip line))"
proof -
  assume ne: "strip line \<noteq> []"
  let ?r = "dropWhile isspace (rev (lstrip line))"
  from ne have "?r \<noteq> []" by (simp add: strip_def rstrip_def)
  then have "\<not> isspace (hd ?r)" by (rule hd_dropWhile)
  moreover have "last (strip line) = hd ?r"
    using \<open>?r \<noteq> []\<close> by (simp add: strip_def rstrip_def last_rev)
  ultimately show ?thesis by simp
qed

lemma normalize_eq: "normalize_username line = dropWhile (\<lambda>c. c = of_char CHR ''@'') (strip line)"
  by (simp add: normalize_username_def lstrip_chars_def ascii_def)

text \<open>
  C6. The target username the pipeline uses is the line entered with the
  surrounding whitespace removed and then every leading \<open>@\<close> removed, not only one: the
  line is whitespace, a run of \<open>@\<close>, the username, whitespace. The characters of the
  username are those of the line, unchanged; a username that is not empty does not begin
  with \<open>@\<close> and does not end with whitespace. Unless the line, its whitespace removed,
  begins with two \<open>@\<close>, this is the normalisation as the specification words it.
\<close>

theorem normalize_strips_every_leading_at:
  "normalize_username line = dropWhile (\<lambda>c. c = of_char CHR ''@'') (strip line)
   \<and> (\<exists>ws ats ws'. line = ws @ ats @ normalize_username line @ ws'
          \<and> (\<forall>c\<in>set ws. isspace c) \<and> (\<forall>c\<in>set ats. c = of_char CHR ''@'')
          \<and> (\<forall>c\<in>set ws'. isspace c))
   \<and> (normalize_username line \<noteq> [] \<longrightarrow>
         hd (normalize_username line) \<noteq> of_char CHR ''@'' \<and> \<not> isspace (last (normalize_username line)))
   \<and> ((\<forall>rest. strip line \<noteq> ascii ''@@'' @ rest) \<longrightarrow> normalize_username line = spec_normalize line)"
proof -
  let ?at = "\<lambda>c::nat. c = of_char CHR ''@''"
  let ?ats = "takeWhile ?at (strip line)"
  obtain ws ws' where d: "line = ws @ strip line @ ws'"
    and ws: "\<forall>c\<in>set ws. isspace c" and ws': "\<forall>c\<in>set ws'. isspace c"
    using strip_decomp by blast
  have s: "strip line = ?ats @ normalize_username line" by (simp add: normalize_eq)
  have "line = ws @ ?ats @ normalize_username line @ ws'"
    using d s by (metis append_assoc)
  moreover have "\<forall>c\<in>set ?ats. c = of_char CHR ''@''" by (rule takeWhile_all)
  ultimately have decomp: "\<exists>ws ats ws'. line = ws @ ats @ normalize_username line @ ws'
          \<and> (\<forall>c\<in>set ws. isspace c) \<and> (\<forall>c\<in>set ats. c = of_char CHR ''@'')
          \<and> (\<forall>c\<in>set ws'. isspace c)"
    using ws ws' by blast
  have ends: "hd (normalize_username line) \<noteq> of_char CHR ''@'' \<and> \<not> isspace (last (normalize_username line))"
    if ne: "normalize_username line \<noteq> []"
  proof -
    have "\<not> ?at (hd (dropWhile ?at (strip line)))"
      using ne unfolding normalize_eq by (rule hd_dropWhile)
    then have h: "hd (normalize_username line) \<noteq> of_char CHR ''@''" by (simp add: normalize_eq)
    from ne s have "strip line \<noteq> []" by auto
    then have "\<not> isspace (last (strip line))" by (rule strip_last)
    moreover have "last (strip line) = last (normalize_username line)"
      using ne s by (metis last_appendR)
    ultimately show ?thesis using h by simp
  qed
  have agree: "normalize_username line = spec_normalize line"
    if one: "\<forall>rest. strip line \<noteq> ascii ''@@'' @ rest"
  proof (cases "strip line")
    case Nil
    then show ?thesis by (simp add: normalize_eq spec_normalize_def)
  next
    case (Cons c rest)
    show ?thesis
    proof (cases "c = of_char CHR ''@''")
      case False
      with Cons show ?thesis by (simp add: normalize_eq spec_normalize_def ascii_def)
    next
      case True
      have "rest = [] \<or> hd rest \<noteq> of_char CHR ''@''"
      proof (cases rest)
        case Nil then show ?thesis by simp
      next
        case (Cons c' rest')
        with one \<open>strip line = c # rest\<close> True have "c' \<noteq> of_char CHR ''@''"
          by (auto simp: ascii_def)
        with Cons show ?thesis by simp
      qed
      then have "dropWhile ?at rest = rest" by (cases rest) auto
      with Cons True show ?thesis by (simp add: normalize_eq spec_normalize_def ascii_def)
    qed
  qed
  show ?thesis using normalize_eq decomp ends agree by blast
qed

lemma normalize_example: "normalize_username (ascii ''  @@Bob  '') = ascii ''Bob''"
  by (simp add: normalize_username_def lstrip_chars_def strip_def lstrip_def rstrip_def isspace_def ascii_def)

theorem normalize_strips_every_leading_at_witness:
  "normalize_username (ascii ''  @@Bob  '') = ascii ''Bob''
   \<and> normalize_username (ascii ''  @@Bob  '') \<noteq> []
   \<and> hd (normalize_username (ascii ''  @@Bob  '')) \<noteq> of_char CHR ''@''
   \<and> \<not> isspace (last (normalize_username (ascii ''  @@Bob  '')))
   \<and> (\<forall>rest. strip (ascii ''  Bob  '') \<noteq> ascii ''@@'' @ rest)
   \<and> normalize_username (ascii ''  Bob  '') = spec_normalize (ascii ''  Bob  '')"
proof -
  have ne: "normalize_username (ascii ''  @@Bob  '') \<noteq> []"
    by (simp add: normalize_example) (simp add: ascii_def)
  have s: "strip (ascii ''  Bob  '') = ascii ''Bob''"
    by (simp add: strip_def lstrip_def rstrip_def isspace_def ascii_def)
  have one: "\<forall>rest. strip (ascii ''  Bob  '') \<noteq> ascii ''@@'' @ rest"
    unfolding s by (simp add: ascii_def)
  show ?thesis
    using normalize_example ne one
      normalize_strips_every_leading_at[of "ascii ''  @@Bob  ''"]
      normalize_strips_every_leading_at[of "ascii ''  Bob  ''"]
    by blast
qed

text \<open>The line \<open>@@bob\<close>: the program uses \<open>bob\<close>, where removing the leading \<open>@\<close>
  gives \<open>@bob\<close>.\<close>

theorem normalize_double_at_counterexample:
  "normalize_username (ascii ''@@bob'') = ascii ''bob''
   \<and> spec_normalize (ascii ''@@bob'') = ascii ''@bob''
   \<and> normalize_username (ascii ''@@bob'') \<noteq> spec_normalize (ascii ''@@bob'')"
  by (simp add: normalize_username_def spec_normalize_def lstrip_chars_def strip_def lstrip_def rstrip_def
      isspace_def ascii_def)

text \<open>
  C5. When the target username entered is empty after normalisation, \<open>main\<close> prints that
  the username cannot be empty and exits with status 1; no call has been made to the
  provider, no further line has been read, and no file has been touched.
\<close>

theorem empty_target_exits_before_login:
  assumes "console_in w = line # rest" and "normalize_username line = []"
  shows "fst (main pv w) = Inl (Exit 1)
       \<and> exit_status (fst (main pv w)) = 1
       \<and> provider_calls (snd (main pv w)) = provider_calls w
       \<and> files (snd (main pv w)) = files w
       \<and> console_in (snd (main pv w)) = rest
       \<and> last (console_out (snd (main pv w)))
           = ascii ''Error: Username cannot be empty.'' @ ascii ''\<newline>''"
  using assms unfolding main_def main_target_def
  by (simp add: andthen_def py_print_def print_end_def py_input_def sys_exit_def Let_def)

theorem empty_target_exits_before_login_witness:
  "console_in (start_world [ascii '' @@ '', ascii ''me'', ascii ''pw'']) 
     = ascii '' @@ '' # [ascii ''me'', ascii ''pw'']
   \<and> normalize_username (ascii '' @@ '') = []
   \<and> fst (main scenario1_provider (start_world [ascii '' @@ '', ascii ''me'', ascii ''pw''])) = Inl (Exit 1)
   \<and> provider_calls (snd (main scenario1_provider (start_world [ascii '' @@ '', ascii ''me'', ascii ''pw''])))
       = []
   \<and> files (snd (main scenario1_provider (start_world [ascii '' @@ '', ascii ''me'', ascii ''pw'']))) = []"
proof -
  have c: "console_in (start_world [ascii '' @@ '', ascii ''me'', ascii ''pw''])
     = ascii '' @@ '' # [ascii ''me'', ascii ''pw'']"
    by (simp add: start_world_def)
  have n: "normalize_username (ascii '' @@ '') = []"
    by (simp add: normalize_username_def lstrip_chars_def strip_def lstrip_def rstrip_def isspace_def
        ascii_def)
  have p: "provider_calls (start_world [ascii '' @@ '', ascii ''me'', ascii ''pw'']) = []"
    "files (start_world [ascii '' @@ '', ascii ''me'', ascii ''pw'']) = []"
    by (simp_all add: start_world_def)
  show ?thesis
    using c n empty_target_exits_before_login[OF c n, of scenario1_provider] unfolding p by blast
qed

subsection \<open>Running programs step by step\<close>

lemma fetched_frame [simp]:
  "files (fetched r l xs w) = files w"
  "length (heap (fetched r l xs w)) = length (heap w)"
  "provider_calls (fetched r l xs w) = provider_calls w"
  "console_in (fetched r l xs w) = console_in w"
  "can_create (fetched r l xs w) = can_create w"
  "clock (fetched r l xs w) = clock w"
  "ticks (fetched r l xs w) = ticks w"
  by (induction xs arbitrary: w) simp_all

lemma fetched_is_set [simp]: "is_set (fetched r l xs w) a = is_set w a"
  by (simp add: is_set_def)

lemma andthen_Inr: "m w = (Inr x, w') \<Longrightarrow> andthen m f w = f x w'"
  by (simp add: andthen_def)

lemma andthen_Inl: "m w = (Inl a, w') \<Longrightarrow> andthen m f w = (Inl a, w')"
  by (simp add: andthen_def)

lemma fetch_loop:
  "is_set w r \<Longrightarrow>
   for_each xs (\<lambda>x. andthen (set_add r x) (\<lambda>_. andthen (py_len r) (\<lambda>n.
      print_end (l @ str_nat n) [0x0D]))) w
   = (Inr (), fetched r l xs w)"
proof (induction xs arbitrary: w)
  case Nil
  then show ?case by (simp add: return_def)
next
  case (Cons x xs)
  let ?body = "\<lambda>x. andthen (set_add r x) (\<lambda>_. andthen (py_len r) (\<lambda>n.
      print_end (l @ str_nat n) [0x0D]))"
  let ?w0 = "w\<lparr>heap := (heap w)[r := finsert x (heap w ! r)]\<rparr>"
  let ?w1 = "w\<lparr>heap := (heap w)[r := finsert x (heap w ! r)],
         console_out := console_out w
           @ [(l @ str_nat (fcard (finsert x (heap w ! r)))) @ [0x0D]]\<rparr>"
  have add: "set_add r x w = (Inr (), ?w0)"
    using Cons.prems by (simp add: set_add_def)
  have len: "py_len r ?w0 = (Inr (fcard (finsert x (heap w ! r))), ?w0)"
    using Cons.prems by (simp add: py_len_def is_set_def)
  have pr: "print_end (l @ str_nat (fcard (finsert x (heap w ! r)))) [0x0D] ?w0 = (Inr (), ?w1)"
    by (simp add: print_end_def)
  have body: "?body x w = (Inr (), ?w1)"
    using add len pr by (simp add: andthen_def)
  have "is_set ?w1 r" using Cons.prems by (simp add: is_set_def)
  from Cons.IH[OF this] have ih: "for_each xs ?body ?w1 = (Inr (), fetched r l (x # xs) w)"
    by (simp only: fetched.simps)
  have "for_each (x # xs) ?body w = andthen (?body x) (\<lambda>_. for_each xs ?body) w"
    by (simp only: for_each.simps)
  also have "\<dots> = for_each xs ?body ?w1"
    by (rule andthen_Inr[where m = "?body x" and w = w, OF body])
  finally show ?case using ih by (simp only:)
qed

lemma fetched_heap:
  "r < length (heap w) \<Longrightarrow>
   heap (fetched r l xs w) = (heap w)[r := heap w ! r |\<union>| fset_of_list xs]"
proof (induction xs arbitrary: w)
  case Nil
  then show ?case by simp
next
  case (Cons x xs)
  then show ?case by (simp add: funion_finsert_right[symmetric] del: funion_finsert_right)
qed

lemma exec_print [simp]:
  "andthen (print_end s e) f w = f () (w\<lparr>console_out := console_out w @ [s @ e]\<rparr>)"
  "andthen (py_print s) f w = f () (w\<lparr>console_out := console_out w @ [s @ ascii ''\<newline>'']\<rparr>)"
  "py_print s w = (Inr (), w\<lparr>console_out := console_out w @ [s @ ascii ''\<newline>'']\<rparr>)"
  by (simp_all add: andthen_def py_print_def print_end_def)

lemma exec_stop [simp]:
  "andthen (return x) f w = f x w"
  "andthen (sys_exit n) f w = (Inl (Exit n), w)"
  "andthen (py_raise e) f w = (Inl (Raise e), w)"
  "sys_exit n w = (Inl (Exit n), w)"
  "py_raise e w = (Inl (Raise e), w)"
  "return x w = (Inr x, w)"
  by (simp_all add: andthen_def return_def sys_exit_def py_raise_def)

lemma exec_assoc [simp]:
  "andthen (andthen m g) f w = andthen m (\<lambda>x. andthen (g x) f) w"
  "andthen (if c then a else b) f w = (if c then andthen a f w else andthen b f w)"
  by (simp_all add: andthen_def split: prod.splits sum.splits)

lemma exec_sets [simp]:
  "andthen new_set f w = f (length (heap w)) (w\<lparr>heap := heap w @ [{||}]\<rparr>)"
  "is_set w r \<Longrightarrow> andthen (py_len r) f w = f (fcard (heap w ! r)) w"
  by (simp_all add: andthen_def new_set_def py_len_def)

lemma exec_provider [simp]:
  "andthen (get_followees p) f w
     = f (p_get_followees p) (w\<lparr>provider_calls := provider_calls w @ [GetFollowees]\<rparr>)"
  "andthen (get_followers p) f w
     = f (p_get_followers p) (w\<lparr>provider_calls := provider_calls w @ [GetFollowers]\<rparr>)"
  by (simp_all add: andthen_def get_followees_def get_followers_def called_def)

lemma exec_fetch_loop [simp]:
  "is_set w r \<Longrightarrow>
   andthen (for_each xs (\<lambda>x. andthen (set_add r x) (\<lambda>_. andthen (py_len r) (\<lambda>n.
      print_end (l @ str_nat n) [0x0D])))) f w
   = f () (fetched r l xs w)"
  by (rule andthen_Inr[where m = "for_each xs (\<lambda>x. andthen (set_add r x) (\<lambda>_. andthen (py_len r) (\<lambda>n.
      print_end (l @ str_nat n) [0x0D])))", OF fetch_loop])

lemma exec_try [simp]:
  "andthen (try_except m h) f w =
    (case m w of
       (Inl (Raise e), w') \<Rightarrow> andthen (h e) f w'
     | (Inl (Exit n), w') \<Rightarrow> (Inl (Exit n), w')
     | (Inr x, w') \<Rightarrow> f x w')"
  by (simp add: andthen_def try_except_def split: prod.splits sum.splits abort.splits)

lemma exec_from_username:
  "profile_from_username pv t w =
    (case pv_from_username pv t of
       Inr p \<Rightarrow> (Inr p, w\<lparr>provider_calls := provider_calls w @ [FromUsername t]\<rparr>)
     | Inl e \<Rightarrow> (Inl (Raise e), w\<lparr>provider_calls := provider_calls w @ [FromUsername t]\<rparr>))"
  by (simp add: profile_from_username_def called_def split: sum.splits)

lemma get_profile_data_complete:
  assumes "pv_from_username pv t = Inr p"
    and "p_get_followees p = (xs, None)" and "p_get_followers p = (ys, None)"
  shows "fst (get_profile_data pv t w) = Inr (Suc (length (heap w)), length (heap w))"
    and "heap (snd (get_profile_data pv t w)) = heap w @ [fset_of_list xs, fset_of_list ys]"
    and "files (snd (get_profile_data pv t w)) = files w"
   unfolding get_profile_data_def
   using assms
   by (simp_all add: exec_from_username for_stream_def is_set_def fetched_heap
       list_update_append nth_append)

subsection \<open>The paths of \<open>get_profile_data\<close>\<close>

lemma get_profile_data_no_profile:
  assumes "pv_from_username pv t = Inl e"
  shows "fst (get_profile_data pv t w) =
          (if exn_class_of e = ProfileNotExistsException \<or> exn_class_of e = LoginRequiredException
           then Inl (Exit 1) else Inl (Raise e))"
    and "files (snd (get_profile_data pv t w)) = files w"
  unfolding get_profile_data_def using assms
  by (simp_all add: exec_from_username)

lemma get_profile_data_followees_stop:
  assumes "pv_from_username pv t = Inr p" and "p_get_followees p = (xs, Some e)"
  shows "fst (get_profile_data pv t w) =
          (if exn_class_of e = LoginRequiredException then Inl (Exit 1) else Inl (Raise e))"
    and "files (snd (get_profile_data pv t w)) = files w"
  unfolding get_profile_data_def using assms
  by (simp_all add: exec_from_username for_stream_def is_set_def)

lemma get_profile_data_followers_stop:
  assumes "pv_from_username pv t = Inr p" and "p_get_followees p = (xs, None)"
    and "p_get_followers p = (ys, Some e)"
  shows "fst (get_profile_data pv t w) =
          (if exn_class_of e = LoginRequiredException then Inl (Exit 1) else Inl (Raise e))"
    and "files (snd (get_profile_data pv t w)) = files w"
  unfolding get_profile_data_def using assms
  by (simp_all add: exec_from_username for_stream_def is_set_def)

lemma get_profile_data_files: "files (snd (get_profile_data pv t w)) = files w"
proof (cases "pv_from_username pv t")
  case (Inl e)
  then show ?thesis by (rule get_profile_data_no_profile)
next
  case (Inr p)
  obtain xs ex where fe: "p_get_followees p = (xs, ex)" by (cases "p_get_followees p")
  obtain ys ey where fr: "p_get_followers p = (ys, ey)" by (cases "p_get_followers p")
  show ?thesis
  proof (cases ex)
    case (Some e)
    with Inr fe show ?thesis by (simp add: get_profile_data_followees_stop)
  next
    case None
    note ex = this
    show ?thesis
    proof (cases ey)
      case (Some e)
      with Inr fe fr ex show ?thesis by (simp add: get_profile_data_followers_stop)
    next
      case None
      with Inr fe fr ex show ?thesis by (simp add: get_profile_data_complete)
    qed
  qed
qed

lemma get_profile_data_denied:
  assumes "fetch_denied pv t"
  shows "fst (get_profile_data pv t w) = Inl (Exit 1)"
proof (cases "pv_from_username pv t")
  case (Inl e)
  with assms show ?thesis by (simp add: get_profile_data_no_profile fetch_denied_def)
next
  case (Inr p)
  obtain xs ex where fe: "p_get_followees p = (xs, ex)" by (cases "p_get_followees p")
  obtain ys ey where fr: "p_get_followers p = (ys, ey)" by (cases "p_get_followers p")
  show ?thesis
  proof (cases ex)
    case (Some e)
    with Inr fe assms show ?thesis
      by (simp add: get_profile_data_followees_stop fetch_denied_def)
  next
    case None
    note ex = this
    show ?thesis
    proof (cases ey)
      case (Some e)
      with Inr fe fr ex assms show ?thesis
        by (simp add: get_profile_data_followers_stop fetch_denied_def)
    next
      case None
      with Inr fe fr ex assms show ?thesis by (simp add: fetch_denied_def)
    qed
  qed
qed

lemma get_profile_data_returns:
  assumes "fst (get_profile_data pv t w) = Inr x"
  shows "fetch_complete pv t"
proof (cases "pv_from_username pv t")
  case (Inl e)
  with assms show ?thesis by (simp add: get_profile_data_no_profile split: if_splits)
next
  case (Inr p)
  obtain xs ex where fe: "p_get_followees p = (xs, ex)" by (cases "p_get_followees p")
  obtain ys ey where fr: "p_get_followers p = (ys, ey)" by (cases "p_get_followers p")
  show ?thesis
  proof (cases ex)
    case (Some e)
    with Inr fe assms show ?thesis
      by (simp add: get_profile_data_followees_stop split: if_splits)
  next
    case None
    note ex = this
    show ?thesis
    proof (cases ey)
      case (Some e)
      with Inr fe fr ex assms show ?thesis
        by (simp add: get_profile_data_followers_stop split: if_splits)
    next
      case None
      with Inr fe fr ex show ?thesis by (simp add: fetch_complete_def)
    qed
  qed
qed

lemma exec_input [simp]:
  "andthen (py_input prompt) f w =
    (case console_in w of
       [] \<Rightarrow> (Inl (Raise (Exn EOFError (ascii ''EOF when reading a line''))),
              w\<lparr>console_out := console_out w @ [prompt]\<rparr>)
     | l # ls \<Rightarrow> f l (w\<lparr>console_out := console_out w @ [prompt], console_in := ls\<rparr>))"
  "andthen (getpass prompt) f w = andthen (py_input prompt) f w"
  by (simp_all add: andthen_def py_input_def getpass_def Let_def split: list.splits)

lemma exec_login_then [simp]:
  "andthen (loader_login pv u p) f w =
    (case pv_login pv u p of
       None \<Rightarrow> f () (w\<lparr>provider_calls := provider_calls w @ [Login u p]\<rparr>)
     | Some e \<Rightarrow> (Inl (Raise e), w\<lparr>provider_calls := provider_calls w @ [Login u p]\<rparr>))"
  "andthen (loader_two_factor_login pv c) f w =
    (case pv_two_factor_login pv c of
       None \<Rightarrow> f () (w\<lparr>provider_calls := provider_calls w @ [TwoFactorLogin c]\<rparr>)
     | Some e \<Rightarrow> (Inl (Raise e), w\<lparr>provider_calls := provider_calls w @ [TwoFactorLogin c]\<rparr>))"
  by (simp_all add: andthen_def loader_login_def loader_two_factor_login_def called_def
      split: option.splits)

lemma main_target_files: "files (snd (main_target w)) = files w"
  unfolding main_target_def
  by (simp add: Let_def split: list.splits)

lemma main_login_files: "files (snd (main_login pv w)) = files w"
  unfolding main_login_def
  by (simp add: Let_def try_except_def split: list.splits option.splits)

subsection \<open>The paths of \<open>main\<close>\<close>

lemma main_unfold:
  assumes "main_target w = (Inr target, w1)" and "main_login pv w1 = (Inr (), w2)"
  shows "main pv w =
    andthen (get_profile_data pv target)
      (\<lambda>(followers, following). main_report target followers following) w2"
  unfolding main_def
  by (simp only: andthen_Inr[where m = main_target, OF assms(1)]
      andthen_Inr[where m = "main_login pv", OF assms(2)])

lemma main_stops_with_fetch:
  assumes "main_target w = (Inr target, w1)" and "main_login pv w1 = (Inr (), w2)"
    and "fst (get_profile_data pv target w2) = Inl a"
  shows "fst (main pv w) = Inl a" and "files (snd (main pv w)) = files w"
proof -
  obtain w3 where g: "get_profile_data pv target w2 = (Inl a, w3)"
    using assms(3) by (cases "get_profile_data pv target w2") auto
  have m: "main pv w = (Inl a, w3)"
    by (simp only: main_unfold[OF assms(1,2)]
        andthen_Inl[where m = "get_profile_data pv target", OF g])
  show "fst (main pv w) = Inl a" by (simp add: m)
  have "files w3 = files w2" using get_profile_data_files[of pv target w2] g by simp
  moreover have "files w2 = files w1" using main_login_files[of pv w1] assms(2) by simp
  moreover have "files w1 = files w" using main_target_files[of w] assms(1) by simp
  ultimately show "files (snd (main pv w)) = files w" by (simp add: m)
qed

lemma main_files_changed:
  assumes "files (snd (main pv w)) \<noteq> files w"
  shows "\<exists>target w1 w2. main_target w = (Inr target, w1) \<and> main_login pv w1 = (Inr (), w2)
           \<and> fetch_complete pv target"
proof -
  obtain r1 w1 where t: "main_target w = (r1, w1)" by (cases "main_target w")
  have f1: "files w1 = files w" using main_target_files[of w] t by simp
  show ?thesis
  proof (cases r1)
    case (Inl a)
    with t have "main pv w = (Inl a, w1)"
      unfolding main_def by (simp only: andthen_Inl[where m = main_target])
    with f1 assms show ?thesis by simp
  next
    case (Inr target)
    note t = t[unfolded Inr]
    obtain r2 w2 where l: "main_login pv w1 = (r2, w2)" by (cases "main_login pv w1")
    have f2: "files w2 = files w1" using main_login_files[of pv w1] l by simp
    show ?thesis
    proof (cases r2)
      case (Inl a)
      with l have "main pv w = (Inl a, w2)"
        unfolding main_def
        by (simp only: andthen_Inr[where m = main_target, OF t]
            andthen_Inl[where m = "main_login pv"])
      with f1 f2 assms show ?thesis by simp
    next
      case (Inr u)
      then have l: "main_login pv w1 = (Inr (), w2)" using l by simp
      show ?thesis
      proof (cases "fst (get_profile_data pv target w2)")
        case (Inl a)
        from main_stops_with_fetch(2)[OF t l Inl] assms show ?thesis by simp
      next
        case (Inr x)
        then have "fetch_complete pv target" by (rule get_profile_data_returns)
        with t l show ?thesis by blast
      qed
    qed
  qed
qed

text \<open>
  C3. In a run that reaches the fetch (the target is entered and the login succeeds), if
  the profile does not exist or is private at resolution, or the provider raises
  login-required while either list is enumerated, \<open>main\<close> exits with status 1 and leaves
  the files as they were. In any run, if the files have changed, then the target was
  entered, the login succeeded, the profile was resolved and both enumerations reached
  their end.
\<close>

theorem no_report_unless_fetch_complete:
  "(\<forall>target w1 w2.
      main_target w = (Inr target, w1) \<and> main_login pv w1 = (Inr (), w2)
      \<and> fetch_denied pv target \<longrightarrow>
        fst (main pv w) = Inl (Exit 1) \<and> exit_status (fst (main pv w)) = 1
        \<and> files (snd (main pv w)) = files w)
   \<and> (files (snd (main pv w)) \<noteq> files w \<longrightarrow>
        (\<exists>target w1 w2. main_target w = (Inr target, w1) \<and> main_login pv w1 = (Inr (), w2)
           \<and> fetch_complete pv target))"
proof -
  have "fst (main pv w) = Inl (Exit 1) \<and> exit_status (fst (main pv w)) = 1
        \<and> files (snd (main pv w)) = files w"
    if "main_target w = (Inr target, w1)" "main_login pv w1 = (Inr (), w2)"
       "fetch_denied pv target" for target w1 w2
  proof -
    have "fst (get_profile_data pv target w2) = Inl (Exit 1)"
      using that(3) by (rule get_profile_data_denied)
    from main_stops_with_fetch[OF that(1,2) this] show ?thesis by simp
  qed
  then show ?thesis using main_files_changed by blast
qed

lemma main_target_ok:
  assumes "console_in w = line # rest" and "normalize_username line \<noteq> []"
  shows "main_target w =
    (Inr (normalize_username line),
     w\<lparr>console_out := console_out w @
         [replicate 60 (of_char CHR ''='') @ ascii ''\<newline>'',
          ascii ''       Instagram Follower Analyzer'' @ ascii ''\<newline>'',
          replicate 60 (of_char CHR ''='') @ ascii ''\<newline>'',
          ascii ''\<newline>Enter the Instagram username to analyze: ''],
       console_in := rest\<rparr>)"
  using assms unfolding main_target_def by (simp add: Let_def)

lemma main_login_ok:
  assumes "console_in w = user_line # password # rest"
    and "pv_login pv (strip user_line) password = None"
  shows "main_login pv w =
    (Inr (),
     w\<lparr>console_out := console_out w @
         [ascii ''\<newline>Login is required to access follower/following data.'' @ ascii ''\<newline>'',
          ascii ''Your credentials are used only to authenticate with Instagram.''
            @ ascii ''\<newline>'',
          ascii ''Your Instagram username (for login): '',
          ascii ''Your Instagram password: '',
          ascii ''\<newline>Logging in...'' @ ascii ''\<newline>'',
          ascii ''Login successful.'' @ ascii ''\<newline>''],
       console_in := rest,
       provider_calls := provider_calls w @ [Login (strip user_line) password]\<rparr>)"
  using assms unfolding main_login_def by (simp add: Let_def try_except_def)

lemma main_login_two_factor:
  assumes "console_in w = user_line # password # code_line # rest"
    and "pv_login pv (strip user_line) password = Some e"
    and "exn_class_of e = TwoFactorAuthRequiredException"
  shows "main_login pv w =
    (case pv_two_factor_login pv (strip code_line) of
       None \<Rightarrow> Inr ()
     | Some e2 \<Rightarrow> Inl (Raise e2),
     w\<lparr>console_out := console_out w @
         [ascii ''\<newline>Login is required to access follower/following data.'' @ ascii ''\<newline>'',
          ascii ''Your credentials are used only to authenticate with Instagram.''
            @ ascii ''\<newline>'',
          ascii ''Your Instagram username (for login): '',
          ascii ''Your Instagram password: '',
          ascii ''\<newline>Logging in...'' @ ascii ''\<newline>'',
          ascii ''Two-factor authentication required. Enter the code: '']
         @ (case pv_two_factor_login pv (strip code_line) of
              None \<Rightarrow> [ascii ''Login successful.'' @ ascii ''\<newline>'']
            | Some e2 \<Rightarrow> []),
       console_in := rest,
       provider_calls := provider_calls w
         @ [Login (strip user_line) password, TwoFactorLogin (strip code_line)]\<rparr>)"
  using assms unfolding main_login_def
  by (simp add: Let_def try_except_def split: option.splits)

text \<open>Scenario 6: the login asks for the second factor and the code is accepted.\<close>

lemma two_factor_login_succeeds:
  assumes "console_in w = user_line # password # code_line # rest"
    and "pv_login pv (strip user_line) password = Some e"
    and "exn_class_of e = TwoFactorAuthRequiredException"
    and "pv_two_factor_login pv (strip code_line) = None"
  shows "fst (main_login pv w) = Inr ()"
    and "last (console_out (snd (main_login pv w))) = ascii ''Login successful.'' @ ascii ''\<newline>''"
  by (simp_all add: main_login_two_factor[OF assms(1,2,3)] assms(4))

text \<open>
  C4. On a two-factor challenge \<open>main\<close> prompts for the code and
  calls \<open>two_factor_login\<close> with it. When that call raises, no clause handles the
  exception, because it is raised inside a handler of the \<open>try\<close> statement: it leaves
  \<open>main\<close>. The last thing the program has printed is the prompt; it prints no error
  message of its own and does not reach \<open>sys.exit(1)\<close>, as the handlers for bad
  credentials and for other login errors do.
\<close>

theorem two_factor_failure_escapes:
  assumes "console_in w = target_line # user_line # password # code_line # rest"
    and "normalize_username target_line \<noteq> []"
    and "pv_login pv (strip user_line) password = Some e"
    and "exn_class_of e = TwoFactorAuthRequiredException"
    and "pv_two_factor_login pv (strip code_line) = Some e2"
  shows "fst (main pv w) = Inl (Raise e2)
       \<and> exit_status (fst (main pv w)) = 1
       \<and> provider_calls (snd (main pv w))
           = provider_calls w @ [Login (strip user_line) password, TwoFactorLogin (strip code_line)]
       \<and> last (console_out (snd (main pv w)))
           = ascii ''Two-factor authentication required. Enter the code: ''
       \<and> files (snd (main pv w)) = files w"
proof -
  define w1 where "w1 = snd (main_target w)"
  note t = main_target_ok[OF assms(1,2)]
  have w1: "console_in w1 = user_line # password # code_line # rest"
    "provider_calls w1 = provider_calls w" "files w1 = files w"
    by (simp_all add: w1_def t)
  have t': "main_target w = (Inr (normalize_username target_line), w1)"
    by (simp add: w1_def t)
  note l = main_login_two_factor[OF w1(1) assms(3,4)]
  have l': "main_login pv w1 = (Inl (Raise e2), snd (main_login pv w1))"
    by (simp add: l assms(5))
  have m: "main pv w = (Inl (Raise e2), snd (main_login pv w1))"
    unfolding main_def
    by (simp only: andthen_Inr[where m = main_target, OF t']
        andthen_Inl[where m = "main_login pv", OF l'])
  show ?thesis
    unfolding m by (simp add: l assms(5) w1)
qed

theorem two_factor_failure_escapes_witness:
  "console_in (start_world [ascii ''bob'', ascii ''me'', ascii ''pw'', ascii ''000000''])
     = ascii ''bob'' # ascii ''me'' # ascii ''pw'' # ascii ''000000'' # []
   \<and> normalize_username (ascii ''bob'') \<noteq> []
   \<and> pv_login two_factor_provider (strip (ascii ''me'')) (ascii ''pw'')
       = Some (Exn TwoFactorAuthRequiredException (ascii ''2FA required''))
   \<and> pv_two_factor_login two_factor_provider (strip (ascii ''000000''))
       = Some (Exn BadCredentialsException (ascii ''2FA error''))
   \<and> fst (main two_factor_provider
        (start_world [ascii ''bob'', ascii ''me'', ascii ''pw'', ascii ''000000'']))
       = Inl (Raise (Exn BadCredentialsException (ascii ''2FA error'')))
   \<and> last (console_out (snd (main two_factor_provider
        (start_world [ascii ''bob'', ascii ''me'', ascii ''pw'', ascii ''000000'']))))
       = ascii ''Two-factor authentication required. Enter the code: ''"
proof -
  let ?w = "start_world [ascii ''bob'', ascii ''me'', ascii ''pw'', ascii ''000000'']"
  have c: "console_in ?w = ascii ''bob'' # ascii ''me'' # ascii ''pw'' # ascii ''000000'' # []"
    by (simp add: start_world_def)
  have n: "normalize_username (ascii ''bob'') \<noteq> []"
    by (simp add: normalize_username_def lstrip_chars_def strip_def lstrip_def rstrip_def
        isspace_def ascii_def)
  have l: "pv_login two_factor_provider (strip (ascii ''me'')) (ascii ''pw'')
       = Some (Exn TwoFactorAuthRequiredException (ascii ''2FA required''))"
    by (simp add: two_factor_provider_def)
  have k: "exn_class_of (Exn TwoFactorAuthRequiredException (ascii ''2FA required''))
       = TwoFactorAuthRequiredException"
    by simp
  have f: "pv_two_factor_login two_factor_provider (strip (ascii ''000000''))
       = Some (Exn BadCredentialsException (ascii ''2FA error''))"
    by (simp add: two_factor_provider_def)
  show ?thesis
    using c n l f two_factor_failure_escapes[OF c n l k f] by blast
qed

lemma get_profile_data_complete_frame:
  assumes "pv_from_username pv t = Inr p"
    and "p_get_followees p = (xs, None)" and "p_get_followers p = (ys, None)"
  shows "can_create (snd (get_profile_data pv t w)) = can_create w"
    and "clock (snd (get_profile_data pv t w)) = clock w"
    and "ticks (snd (get_profile_data pv t w)) = ticks w"
  unfolding get_profile_data_def using assms
  by (simp_all add: exec_from_username for_stream_def is_set_def)

text \<open>Scenarios 1 and 6: when the target is entered, the login succeeds, both lists are
  enumerated to their end, the file can be created and every username can be encoded,
  \<open>main\<close> returns and the report of the two lists is in the file.\<close>

lemma main_completes:
  assumes "main_target w = (Inr target, w1)" and "main_login pv w1 = (Inr (), w2)"
    and "pv_from_username pv target = Inr p"
    and "p_get_followees p = (xs, None)" and "p_get_followers p = (ys, None)"
    and "can_create w2 (report_filename target (clock w2 (ticks w2)))"
    and "report_encodable target (fset_of_list xs) (fset_of_list ys)"
  shows "fst (main pv w) = Inr ()"
    and "file_content (snd (main pv w)) (report_filename target (clock w2 (ticks w2))) =
         Some (report_preamble target
                 (strftime (clock w2 (Suc (ticks w2))) (ascii ''%Y-%m-%d %H:%M:%S''))
               @ report_sections target
                   (fcard (fset_of_list xs), sorted_list_of_fset (fset_of_list xs))
                   (fcard (fset_of_list ys), sorted_list_of_fset (fset_of_list ys))
                   (fcard (fset_of_list xs |\<inter>| fset_of_list ys),
                    sorted_list_of_fset (fset_of_list xs |\<inter>| fset_of_list ys)))"
proof -
  define w3 where "w3 = snd (get_profile_data pv target w2)"
  note g = get_profile_data_complete[OF assms(3,4,5), of w2]
  note fr = get_profile_data_complete_frame[OF assms(3,4,5), of w2]
  have run: "get_profile_data pv target w2 = (Inr (Suc (length (heap w2)), length (heap w2)), w3)"
    using g(1) by (simp add: w3_def prod_eq_iff)
  have h: "heap w3 = heap w2 @ [fset_of_list xs, fset_of_list ys]"
    using g(2) by (simp add: w3_def)
  have A: "deref w3 (length (heap w2)) = Some (fset_of_list xs)"
    and B: "deref w3 (Suc (length (heap w2))) = Some (fset_of_list ys)"
    by (simp_all add: deref_def is_set_def h nth_append)
  have c: "can_create w3 (report_filename target (clock w3 (ticks w3)))"
    using assms(6) fr by (simp add: w3_def)
  have m: "main pv w
      = main_report target (Suc (length (heap w2))) (length (heap w2)) w3"
    by (simp only: main_unfold[OF assms(1,2)]
        andthen_Inr[where m = "get_profile_data pv target", OF run] prod.case)
  have k: "clock w3 = clock w2" "ticks w3 = ticks w2" using fr by (simp_all add: w3_def)
  show "fst (main pv w) = Inr ()"
    unfolding m by (rule main_report_run(1)[OF A B c assms(7)])
  show "file_content (snd (main pv w)) (report_filename target (clock w2 (ticks w2))) =
         Some (report_preamble target
                 (strftime (clock w2 (Suc (ticks w2))) (ascii ''%Y-%m-%d %H:%M:%S''))
               @ report_sections target
                   (fcard (fset_of_list xs), sorted_list_of_fset (fset_of_list xs))
                   (fcard (fset_of_list ys), sorted_list_of_fset (fset_of_list ys))
                   (fcard (fset_of_list xs |\<inter>| fset_of_list ys),
                    sorted_list_of_fset (fset_of_list xs |\<inter>| fset_of_list ys)))"
    unfolding m using main_report_run(3)[OF A B c assms(7)] by (simp only: k)
qed

lemma bob_entered:
  "console_in (start_world (ascii ''@bob'' # rest)) = ascii ''@bob'' # rest"
  "normalize_username (ascii ''@bob'') = ascii ''bob''"
  "normalize_username (ascii ''@bob'') \<noteq> []"
  by (simp_all add: start_world_def normalize_username_def lstrip_chars_def strip_def lstrip_def
      rstrip_def isspace_def ascii_def)

theorem no_report_unless_fetch_complete_witness:
  "(\<exists>w1 w2. main_target (start_world [ascii ''@bob'', ascii ''me'', ascii ''pw''])
               = (Inr (ascii ''bob''), w1)
          \<and> main_login scenario5_provider w1 = (Inr (), w2))
   \<and> fetch_denied scenario5_provider (ascii ''bob'')
   \<and> fst (main scenario5_provider (start_world [ascii ''@bob'', ascii ''me'', ascii ''pw'']))
       = Inl (Exit 1)
   \<and> files (snd (main scenario5_provider
        (start_world [ascii ''@bob'', ascii ''me'', ascii ''pw'']))) = []
   \<and> files (snd (main scenario1_provider
        (start_world [ascii ''@bob'', ascii ''me'', ascii ''pw''])))
       \<noteq> files (start_world [ascii ''@bob'', ascii ''me'', ascii ''pw''])
   \<and> fetch_complete scenario1_provider (ascii ''bob'')"
proof -
  let ?w = "start_world [ascii ''@bob'', ascii ''me'', ascii ''pw'']"
  define w1 where "w1 = snd (main_target ?w)"
  have t: "main_target ?w = (Inr (ascii ''bob''), w1)"
    using main_target_ok[OF bob_entered(1,3)] by (simp add: w1_def bob_entered(2))
  have c1: "console_in w1 = [ascii ''me'', ascii ''pw'']"
    using main_target_ok[OF bob_entered(1,3)] by (simp add: w1_def)
  have cc: "can_create w1 = (\<lambda>name. True)" "files ?w = []"
    using main_target_ok[OF bob_entered(1,3)] by (simp_all add: w1_def start_world_def)
  define w2 where "w2 = snd (main_login scenario5_provider w1)"
  have l5: "main_login scenario5_provider w1 = (Inr (), w2)"
    using main_login_ok[OF c1, of scenario5_provider]
    by (simp add: w2_def scenario5_provider_def)
  define v2 where "v2 = snd (main_login scenario1_provider w1)"
  have l1: "main_login scenario1_provider w1 = (Inr (), v2)"
    using main_login_ok[OF c1, of scenario1_provider]
    by (simp add: v2_def scenario1_provider_def)
  have cv: "can_create v2 name" for name
    using main_login_ok[OF c1, of scenario1_provider] cc
    by (simp add: v2_def scenario1_provider_def)
  have d: "fetch_denied scenario5_provider (ascii ''bob'')"
    by (simp add: fetch_denied_def scenario5_provider_def bob_profile_def)
  have p1: "pv_from_username scenario1_provider (ascii ''bob'') = Inr (bob_profile None)"
    by (simp add: scenario1_provider_def)
  have s1: "p_get_followees (bob_profile None) = ([ascii ''alice'', ascii ''bob''], None)"
    "p_get_followers (bob_profile None) = ([ascii ''bob'', ascii ''carol''], None)"
    by (simp_all add: bob_profile_def)
  have e1: "report_encodable (ascii ''bob'') (fset_of_list [ascii ''alice'', ascii ''bob''])
      (fset_of_list [ascii ''bob'', ascii ''carol''])"
    by (auto simp: report_encodable_def list_all_sorted_list_of_fset)
  have "file_content (snd (main scenario1_provider ?w))
          (report_filename (ascii ''bob'') (clock v2 (ticks v2))) \<noteq> None"
    using main_completes(2)[OF t l1 p1 s1 cv e1] by simp
  then have changed: "files (snd (main scenario1_provider ?w)) \<noteq> files ?w"
    unfolding cc by (auto simp: file_content_def)
  note five = no_report_unless_fetch_complete[of ?w scenario5_provider]
  note one = no_report_unless_fetch_complete[of ?w scenario1_provider]
  from five t l5 d
  have a: "fst (main scenario5_provider ?w) = Inl (Exit 1)
      \<and> files (snd (main scenario5_provider ?w)) = files ?w"
    by blast
  from one changed obtain target u1 u2
    where "main_target ?w = (Inr target, u1)" and "fetch_complete scenario1_provider target"
    by blast
  with t have b: "fetch_complete scenario1_provider (ascii ''bob'')" by simp
  from t l5 have e: "\<exists>w1 w2. main_target ?w = (Inr (ascii ''bob''), w1)
          \<and> main_login scenario5_provider w1 = (Inr (), w2)"
    by blast
  show ?thesis
    using e d a changed b unfolding cc by (intro conjI) simp_all
qed

end
